theory Spec2Isabelle
  imports Main
begin

unbundle bit_operations_syntax

section \<open>JavaScript values\<close>

text \<open>
  The access-control engine is JavaScript/TypeScript. The values it branches on are
  modelled by a small datatype: \<open>undefined\<close>, \<open>null\<close>, strings and numbers.
  Numbers are restricted to the integer-valued ones (permission bitmasks); \<open>NaN\<close>,
  infinities and fractions are outside the model. Strings are lists of 8-bit characters.
  Strict equality \<open>===\<close> on these values is HOL equality.
\<close>

datatype jsval = JUndefined | JNull | JStr string | JNum int

text \<open>
  A value of the TypeScript type \<open>string | null | undefined\<close>: a principal id, a role id,
  a user's role.
\<close>

datatype jsstr = Undefined | Null | Str string

fun val_of :: "jsstr \<Rightarrow> jsval" where
  "val_of Undefined = JUndefined"
| "val_of Null = JNull"
| "val_of (Str s) = JStr s"

text \<open>Truthiness, as used by \<open>if (v)\<close>, \<open>!v\<close>, \<open>a && b\<close> and \<open>a || b\<close>.\<close>

fun truthy :: "jsstr \<Rightarrow> bool" where
  "truthy Undefined = False"
| "truthy Null = False"
| "truthy (Str s) = (s \<noteq> [])"

text \<open>
  The bitwise operators convert their operands with ToInt32 (reduction modulo \<open>2^32\<close> into
  the signed 32-bit range) and work on the two's-complement representation.
\<close>

definition toInt32 :: "int \<Rightarrow> int" where
  "toInt32 x = (let m = x mod 2 ^ 32 in if m \<ge> 2 ^ 31 then m - 2 ^ 32 else m)"

definition js_and :: "int \<Rightarrow> int \<Rightarrow> int" where
  "js_and a b = toInt32 a AND toInt32 b"

definition js_or :: "int \<Rightarrow> int \<Rightarrow> int" where
  "js_or a b = toInt32 a OR toInt32 b"

definition js_not :: "int \<Rightarrow> int" where
  "js_not a = NOT (toInt32 a)"

text \<open>A number that a bitwise operator leaves as it is: a signed 32-bit integer.\<close>

definition int32 :: "int \<Rightarrow> bool" where
  "int32 x = (- (2 ^ 31) \<le> x \<and> x < 2 ^ 31)"

text \<open>\<open>String.prototype.includes\<close>: the needle occurs as a contiguous substring.\<close>

fun is_prefix :: "string \<Rightarrow> string \<Rightarrow> bool" where
  "is_prefix [] s = True"
| "is_prefix (c # cs) [] = False"
| "is_prefix (c # cs) (d # ds) = (c = d \<and> is_prefix cs ds)"

fun js_includes :: "string \<Rightarrow> string \<Rightarrow> bool" where
  "js_includes [] needle = (needle = [])"
| "js_includes (c # cs) needle = (is_prefix needle (c # cs) \<or> js_includes cs needle)"

text \<open>
  \<open>String.prototype.trim\<close> removes white space and line terminators from both ends. In
  the 8-bit range these are TAB, LF, VT, FF, CR, SPACE and NBSP.
\<close>

definition js_whitespace :: "char \<Rightarrow> bool" where
  "js_whitespace c = (of_char c \<in> {9, 10, 11, 12, 13, 32, 160 :: nat})"

definition trim :: "string \<Rightarrow> string" where
  "trim s = rev (dropWhile js_whitespace (rev (dropWhile js_whitespace s)))"

text \<open>\<open>Array.prototype.join\<close> on strings.\<close>

fun join :: "string \<Rightarrow> string list \<Rightarrow> string" where
  "join sep [] = []"
| "join sep [x] = x"
| "join sep (x # y # ys) = x @ sep @ join sep (y # ys)"

section \<open>Insertion-ordered maps and sets\<close>

text \<open>
  A JavaScript \<open>Map\<close> iterates in insertion order; \<open>set\<close> on a present key replaces the
  value where it stands, on a new key it appends. A \<open>Set\<close> keeps the first occurrence.
\<close>

type_synonym 'v js_map = "(string \<times> 'v) list"

definition map_values :: "'v js_map \<Rightarrow> 'v list" where
  "map_values m = map snd m"

fun map_set :: "string \<Rightarrow> 'v \<Rightarrow> 'v js_map \<Rightarrow> 'v js_map" where
  "map_set k v [] = [(k, v)]"
| "map_set k v ((k', v') # m) = (if k' = k then (k, v) # m else (k', v') # map_set k v m)"

definition map_get :: "string \<Rightarrow> 'v js_map \<Rightarrow> 'v option" where
  "map_get k m = map_of m k"

definition map_delete :: "string \<Rightarrow> 'v js_map \<Rightarrow> 'v js_map" where
  "map_delete k m = filter (\<lambda>kv. fst kv \<noteq> k) m"

definition set_add :: "'a \<Rightarrow> 'a list \<Rightarrow> 'a list" where
  "set_add x xs = (if x \<in> set xs then xs else xs @ [x])"

text \<open>
  The objects held by a store are mutated in place: an assignment to a field of the object
  that \<open>find\<close> returned changes the first stored value that satisfies the predicate.
\<close>

fun mutate_first :: "('v \<Rightarrow> bool) \<Rightarrow> ('v \<Rightarrow> 'v) \<Rightarrow> 'v js_map \<Rightarrow> 'v js_map" where
  "mutate_first P f [] = []"
| "mutate_first P f ((k, v) # m) =
     (if P v then (k, f v) # m else (k, v) # mutate_first P f m)"

section \<open>Enumerations of the data provider\<close>

text \<open>
  Modelled from the spec: the enums \<open>PrincipalType\<close>, \<open>PrincipalModel\<close>, \<open>ResourceType\<close>,
  \<open>AccessRoleIds\<close> and \<open>RoleBits\<close> of the package \<open>librechat-data-provider\<close>, which the
  engine imports. Principal types are USER, GROUP, ROLE and PUBLIC; resource types are AGENT,
  PROMPTGROUP, MCPSERVER and REMOTE_AGENT; VIEWER is 1, EDITOR is 3 (VIEW|EDIT) and OWNER is
  15 (all four bits). The spec names the members; the strings that stand for them here
  are those the tests and doc comments of the repository use (\<open>'agent'\<close>), and the
  theorems below need only that the members of one enum differ.
\<close>

definition PrincipalType_USER :: string where "PrincipalType_USER = ''user''"
definition PrincipalType_GROUP :: string where "PrincipalType_GROUP = ''group''"
definition PrincipalType_ROLE :: string where "PrincipalType_ROLE = ''role''"
definition PrincipalType_PUBLIC :: string where "PrincipalType_PUBLIC = ''public''"

definition PrincipalType_values :: "string list" where
  "PrincipalType_values =
     [PrincipalType_USER, PrincipalType_GROUP, PrincipalType_PUBLIC, PrincipalType_ROLE]"

definition PrincipalModel_USER :: string where "PrincipalModel_USER = ''User''"
definition PrincipalModel_GROUP :: string where "PrincipalModel_GROUP = ''Group''"
definition PrincipalModel_ROLE :: string where "PrincipalModel_ROLE = ''Role''"

definition ResourceType_AGENT :: string where "ResourceType_AGENT = ''agent''"
definition ResourceType_PROMPTGROUP :: string where "ResourceType_PROMPTGROUP = ''promptGroup''"
definition ResourceType_MCPSERVER :: string where "ResourceType_MCPSERVER = ''mcpServer''"
definition ResourceType_REMOTE_AGENT :: string where "ResourceType_REMOTE_AGENT = ''remoteAgent''"

definition ResourceType_values :: "string list" where
  "ResourceType_values =
     [ResourceType_AGENT, ResourceType_PROMPTGROUP, ResourceType_MCPSERVER,
      ResourceType_REMOTE_AGENT]"

definition AccessRoleIds_AGENT_VIEWER :: string where
  "AccessRoleIds_AGENT_VIEWER = ''agent_viewer''"
definition AccessRoleIds_AGENT_EDITOR :: string where
  "AccessRoleIds_AGENT_EDITOR = ''agent_editor''"
definition AccessRoleIds_AGENT_OWNER :: string where
  "AccessRoleIds_AGENT_OWNER = ''agent_owner''"

definition AccessRoleIds_PROMPTGROUP_VIEWER :: string where
  "AccessRoleIds_PROMPTGROUP_VIEWER = ''promptGroup_viewer''"
definition AccessRoleIds_PROMPTGROUP_EDITOR :: string where
  "AccessRoleIds_PROMPTGROUP_EDITOR = ''promptGroup_editor''"
definition AccessRoleIds_PROMPTGROUP_OWNER :: string where
  "AccessRoleIds_PROMPTGROUP_OWNER = ''promptGroup_owner''"
definition AccessRoleIds_MCPSERVER_VIEWER :: string where
  "AccessRoleIds_MCPSERVER_VIEWER = ''mcpServer_viewer''"
definition AccessRoleIds_MCPSERVER_EDITOR :: string where
  "AccessRoleIds_MCPSERVER_EDITOR = ''mcpServer_editor''"
definition AccessRoleIds_MCPSERVER_OWNER :: string where
  "AccessRoleIds_MCPSERVER_OWNER = ''mcpServer_owner''"
definition AccessRoleIds_REMOTE_AGENT_VIEWER :: string where
  "AccessRoleIds_REMOTE_AGENT_VIEWER = ''remoteAgent_viewer''"
definition AccessRoleIds_REMOTE_AGENT_EDITOR :: string where
  "AccessRoleIds_REMOTE_AGENT_EDITOR = ''remoteAgent_editor''"
definition AccessRoleIds_REMOTE_AGENT_OWNER :: string where
  "AccessRoleIds_REMOTE_AGENT_OWNER = ''remoteAgent_owner''"

definition RoleBits_VIEWER :: int where "RoleBits_VIEWER = 1"
definition RoleBits_EDITOR :: int where "RoleBits_EDITOR = 3"
definition RoleBits_OWNER :: int where "RoleBits_OWNER = 15"

section \<open>Data model\<close>

text \<open>
  A principal as the query functions receive it, \<open>{principalType, principalId?}\<close>, and an
  ACL entry (\<open>IAclEntry\<close>), which carries the same two fields. \<open>entry_id\<close> is the field
  \<open>_id\<close>; \<open>grantedAt\<close> is a \<open>Date\<close>, modelled by its time value.
\<close>

record principal =
  principalType :: string
  principalId :: jsstr

record acl_entry = principal +
  entry_id :: string
  principalModel :: jsstr
  resourceType :: string
  resourceId :: string
  permBits :: int
  roleId :: jsstr
  grantedBy :: string
  grantedAt :: nat

type_synonym acl_store = "acl_entry js_map"

section \<open>ACL entry methods (aclEntry.ts)\<close>

text \<open>
  The predicate shared by \<open>findEntriesByPrincipalsAndResource\<close>,
  \<open>getEffectivePermissionsForResources\<close> and \<open>findAccessibleResources\<close>:
  \<open>principalsList.some(p => ...)\<close>. A PUBLIC element of the list matches every PUBLIC
  entry; any other element matches on type and id.
\<close>

definition principals_some :: "principal list \<Rightarrow> acl_entry \<Rightarrow> bool" where
  "principals_some principalsList entry =
     list_ex (\<lambda>p. if principalType p = PrincipalType_PUBLIC
                   then principalType entry = PrincipalType_PUBLIC
                   else principalType entry = principalType p \<and>
                        principalId entry = principalId p) principalsList"

definition findEntriesByPrincipalsAndResource ::
  "principal list \<Rightarrow> string \<Rightarrow> string \<Rightarrow> acl_store \<Rightarrow> acl_entry list" where
  "findEntriesByPrincipalsAndResource principalsList rType rId aclStore =
     filter (\<lambda>entry.
        if resourceType entry \<noteq> rType \<or> resourceId entry \<noteq> rId then False
        else principals_some principalsList entry) (map_values aclStore)"

definition hasPermission ::
  "principal list \<Rightarrow> string \<Rightarrow> string \<Rightarrow> int \<Rightarrow> acl_store \<Rightarrow> bool" where
  "hasPermission principalsList rType rId permissionBit aclStore =
     list_ex (\<lambda>entry. js_and (permBits entry) permissionBit = permissionBit)
       (findEntriesByPrincipalsAndResource principalsList rType rId aclStore)"

definition getEffectivePermissions ::
  "principal list \<Rightarrow> string \<Rightarrow> string \<Rightarrow> acl_store \<Rightarrow> int" where
  "getEffectivePermissions principalsList rType rId aclStore =
     foldl (\<lambda>effectiveBits entry. js_or effectiveBits (permBits entry)) 0
       (findEntriesByPrincipalsAndResource principalsList rType rId aclStore)"

definition getEffectivePermissionsForResources ::
  "principal list \<Rightarrow> string \<Rightarrow> string list \<Rightarrow> acl_store \<Rightarrow> int js_map" where
  "getEffectivePermissionsForResources principalsList rType resourceIds aclStore =
     (if resourceIds = [] then []
      else
        let allEntries = filter (\<lambda>entry.
              if resourceType entry \<noteq> rType \<or> resourceId entry \<notin> set resourceIds
              then False
              else principals_some principalsList entry) (map_values aclStore)
        in foldl (\<lambda>permissionsMap entry.
              let rid = resourceId entry;
                  currentBits = (case map_get rid permissionsMap of
                                   Some b \<Rightarrow> if b \<noteq> 0 then b else 0
                                 | None \<Rightarrow> 0)
              in map_set rid (js_or currentBits (permBits entry)) permissionsMap)
            [] allEntries)"

definition findAccessibleResources ::
  "principal list \<Rightarrow> string \<Rightarrow> int \<Rightarrow> acl_store \<Rightarrow> string list" where
  "findAccessibleResources principalsList rType requiredPermBit aclStore =
     (let entries = filter (\<lambda>entry.
            if resourceType entry \<noteq> rType \<or>
               js_and (permBits entry) requiredPermBit \<noteq> requiredPermBit
            then False
            else principals_some principalsList entry) (map_values aclStore)
      in foldl (\<lambda>accessibleResourceIds entry. set_add (resourceId entry) accessibleResourceIds)
           [] entries)"

text \<open>
  The arrow function that \<open>grantPermission\<close> and \<open>modifyPermissionBits\<close> pass to
  \<open>find\<close>: the entry of a \<open>(principalType, principalId, resourceType, resourceId)\<close> tuple.
\<close>

definition tuple_match :: "string \<Rightarrow> jsstr \<Rightarrow> string \<Rightarrow> string \<Rightarrow> acl_entry \<Rightarrow> bool" where
  "tuple_match pType pId rType rId e =
     (principalType e = pType \<and> principalId e = pId \<and>
      resourceType e = rType \<and> resourceId e = rId)"

text \<open>
  \<open>grantPermission\<close>. The result of \<open>nanoid()\<close> and the time of \<open>new Date()\<close> are
  parameters; the session parameter is unused by the code and left out. The function
  returns the entry and the store after the call.
\<close>

definition grant_update :: "int \<Rightarrow> string \<Rightarrow> nat \<Rightarrow> jsstr \<Rightarrow> acl_entry \<Rightarrow> acl_entry" where
  "grant_update bits gBy now rl existing =
     (let e = existing\<lparr>permBits := bits, grantedBy := gBy, grantedAt := now\<rparr>
      in if truthy rl then e\<lparr>roleId := rl\<rparr> else e)"

definition grantPermission ::
  "string \<Rightarrow> jsstr \<Rightarrow> string \<Rightarrow> string \<Rightarrow> int \<Rightarrow> string \<Rightarrow> jsstr \<Rightarrow> string \<Rightarrow> nat \<Rightarrow>
   acl_store \<Rightarrow> acl_entry \<times> acl_store" where
  "grantPermission pType pId rType rId bits gBy rl newId now aclStore =
     (case find (tuple_match pType pId rType rId) (map_values aclStore) of
        Some existing \<Rightarrow>
          (grant_update bits gBy now rl existing,
           mutate_first (tuple_match pType pId rType rId) (grant_update bits gBy now rl) aclStore)
      | None \<Rightarrow>
          (let newEntry = \<lparr>principalType = pType, principalId = pId, entry_id = newId,
                 principalModel =
                   (if pType = PrincipalType_USER then Str PrincipalModel_USER
                    else if pType = PrincipalType_GROUP then Str PrincipalModel_GROUP
                    else if pType = PrincipalType_ROLE then Str PrincipalModel_ROLE
                    else Undefined),
                 resourceType = rType, resourceId = rId, permBits = bits, roleId = rl,
                 grantedBy = gBy, grantedAt = now\<rparr>
           in (newEntry, map_set newId newEntry aclStore)))"

text \<open>
  \<open>modifyPermissionBits\<close>: \<open>addBits\<close> and \<open>removeBits\<close> are \<open>number | null | undefined\<close>;
  \<open>None\<close> stands for the two absent values, which the code does not tell apart.
\<close>

definition modify_update :: "int option \<Rightarrow> int option \<Rightarrow> acl_entry \<Rightarrow> acl_entry" where
  "modify_update addBits removeBits entry =
     (let e1 = (case addBits of
                  Some a \<Rightarrow> if a \<noteq> 0 then entry\<lparr>permBits := js_or (permBits entry) a\<rparr> else entry
                | None \<Rightarrow> entry)
      in (case removeBits of
            Some r \<Rightarrow> if r \<noteq> 0 then e1\<lparr>permBits := js_and (permBits e1) (js_not r)\<rparr> else e1
          | None \<Rightarrow> e1))"

definition modifyPermissionBits ::
  "string \<Rightarrow> jsstr \<Rightarrow> string \<Rightarrow> string \<Rightarrow> int option \<Rightarrow> int option \<Rightarrow> acl_store \<Rightarrow>
   acl_entry option \<times> acl_store" where
  "modifyPermissionBits pType pId rType rId addBits removeBits aclStore =
     (case find (tuple_match pType pId rType rId) (map_values aclStore) of
        None \<Rightarrow> (None, aclStore)
      | Some entry \<Rightarrow>
          (Some (modify_update addBits removeBits entry),
           mutate_first (tuple_match pType pId rType rId) (modify_update addBits removeBits)
             aclStore))"


text \<open>
  The generic finder \<open>findAclEntries(filter)\<close>. The filters that the functions modelled
  here pass hold primitive values only, for which the code compares the entry's field with
  \<open>!==\<close>; the operator objects (\<open>$in\<close>, \<open>$bitsAllSet\<close>) are not needed and not
  modelled. \<open>entry_field\<close> is the access \<open>entry[key]\<close>: \<open>None\<close> stands for a value
  that is an object, identical to no primitive: the \<open>Date\<close> of \<open>grantedAt\<close>, and the
  functions and the prototype object that an entry, an object literal, inherits from
  \<open>Object.prototype\<close>. Any other key that the entry does not have reads \<open>undefined\<close>.
\<close>

definition Object_prototype_keys :: "string list" where
  "Object_prototype_keys =
     [''constructor'', ''toString'', ''toLocaleString'', ''valueOf'', ''hasOwnProperty'',
      ''isPrototypeOf'', ''propertyIsEnumerable'', ''__proto__'', ''__defineGetter__'',
      ''__defineSetter__'', ''__lookupGetter__'', ''__lookupSetter__'']"

type_synonym filter = "(string \<times> jsval) list"

definition entry_field :: "string \<Rightarrow> acl_entry \<Rightarrow> jsval option" where
  "entry_field key entry =
     (if key = ''_id'' then Some (JStr (entry_id entry))
      else if key = ''principalType'' then Some (JStr (principalType entry))
      else if key = ''principalId'' then Some (val_of (principalId entry))
      else if key = ''principalModel'' then Some (val_of (principalModel entry))
      else if key = ''resourceType'' then Some (JStr (resourceType entry))
      else if key = ''resourceId'' then Some (JStr (resourceId entry))
      else if key = ''permBits'' then Some (JNum (permBits entry))
      else if key = ''roleId'' then Some (val_of (roleId entry))
      else if key = ''grantedBy'' then Some (JStr (grantedBy entry))
      else if key = ''grantedAt'' then None
      else if key \<in> set Object_prototype_keys then None
      else Some JUndefined)"

definition findAclEntries :: "filter \<Rightarrow> acl_store \<Rightarrow> acl_entry list" where
  "findAclEntries flt aclStore =
     filter (\<lambda>entry. list_all (\<lambda>(key, filterVal). entry_field key entry = Some filterVal) flt)
       (map_values aclStore)"

definition findOneAclEntry :: "filter \<Rightarrow> acl_store \<Rightarrow> acl_entry option" where
  "findOneAclEntry flt aclStore =
     (case findAclEntries flt aclStore of [] \<Rightarrow> None | entry # _ \<Rightarrow> Some entry)"

definition deleteManyAclEntries :: "filter \<Rightarrow> acl_store \<Rightarrow> nat \<times> acl_store" where
  "deleteManyAclEntries flt aclStore =
     (let entries = findAclEntries flt aclStore
      in (length entries, foldl (\<lambda>st entry. map_delete (entry_id entry) st) aclStore entries))"

definition findOneAndDeleteAclEntry :: "filter \<Rightarrow> acl_store \<Rightarrow> acl_entry option \<times> acl_store" where
  "findOneAndDeleteAclEntry flt aclStore =
     (case findOneAclEntry flt aclStore of
        Some entry \<Rightarrow> (Some entry, map_delete (entry_id entry) aclStore)
      | None \<Rightarrow> (None, aclStore))"

definition revokePermission ::
  "string \<Rightarrow> jsstr \<Rightarrow> string \<Rightarrow> string \<Rightarrow> acl_store \<Rightarrow> nat \<times> acl_store" where
  "revokePermission pType pId rType rId aclStore =
     deleteManyAclEntries
       [(''principalType'', JStr pType), (''principalId'', val_of pId),
        (''resourceType'', JStr rType), (''resourceId'', JStr rId)] aclStore"

section \<open>User group methods (userGroup.ts)\<close>

text \<open>A group (\<open>IGroup\<close>): its \<open>_id\<close> and its optional \<open>memberIds\<close>.\<close>

record group =
  group_id :: string
  memberIds :: "string list option"

type_synonym group_store = "group js_map"

definition findGroupsByMemberId :: "string \<Rightarrow> group_store \<Rightarrow> group list" where
  "findGroupsByMemberId userId groupStore =
     filter (\<lambda>g. case memberIds g of None \<Rightarrow> False | Some ms \<Rightarrow> userId \<in> set ms)
       (map_values groupStore)"

definition getUserGroups :: "string \<Rightarrow> group_store \<Rightarrow> group list" where
  "getUserGroups userId groupStore = findGroupsByMemberId userId groupStore"

definition getUserPrincipals :: "string \<Rightarrow> jsstr \<Rightarrow> group_store \<Rightarrow> principal list" where
  "getUserPrincipals userId role groupStore =
     (let principals = [\<lparr>principalType = PrincipalType_USER, principalId = Str userId\<rparr>];
          principals =
            (case role of
               Str r \<Rightarrow> if r \<noteq> [] \<and> trim r \<noteq> []
                        then principals @ [\<lparr>principalType = PrincipalType_ROLE, principalId = Str r\<rparr>]
                        else principals
             | _ \<Rightarrow> principals);
          userGroups = getUserGroups userId groupStore;
          principals =
            (if userGroups \<noteq> []
             then foldl (\<lambda>ps g. ps @ [\<lparr>principalType = PrincipalType_GROUP,
                                         principalId = Str (group_id g)\<rparr>]) principals userGroups
             else principals)
      in principals @ [\<lparr>principalType = PrincipalType_PUBLIC, principalId = Undefined\<rparr>])"

section \<open>Access role methods (accessRole.ts)\<close>

text \<open>
  An access role (\<open>IAccessRole\<close>): \<open>role_id\<close> is its \<open>_id\<close>; the display fields
  \<open>name\<close> and \<open>description\<close> are left out. The store is keyed by \<open>accessRoleId\<close>.
\<close>

record access_role =
  role_id :: string
  accessRoleId :: string
  role_resourceType :: string
  role_permBits :: int

type_synonym role_store = "access_role js_map"

definition findRoleByIdentifier :: "string \<Rightarrow> role_store \<Rightarrow> access_role option" where
  "findRoleByIdentifier roleIdent accessRoleStore = map_get roleIdent accessRoleStore"

text \<open>
  \<open>findRolesByResourceType(resourceType: string)\<close> compares \<open>r.resourceType === resourceType\<close>.
  The model index binds it to \<open>accessRole.find\<close>, whose callers pass a filter object, so
  the argument is either a string or an object; a string is identical to no object.
\<close>

datatype find_arg = ArgString string | ArgObject "(string \<times> jsval) list"

definition findRolesByResourceType :: "find_arg \<Rightarrow> role_store \<Rightarrow> access_role list" where
  "findRolesByResourceType arg accessRoleStore =
     filter (\<lambda>r. case arg of ArgString rType \<Rightarrow> role_resourceType r = rType
                  | ArgObject _ \<Rightarrow> False) (map_values accessRoleStore)"

text \<open>
  \<open>seedDefaultRoles\<close>: the twelve default roles, installed where the store has no role of that
  identifier. \<open>nanoid\<close> is the stream of results of \<open>nanoid()\<close>; the state of the loop is
  the number of ids drawn and the store.
\<close>

definition defaultRoles :: "(string \<times> string \<times> int) list" where
  "defaultRoles =
     [(AccessRoleIds_AGENT_VIEWER, ResourceType_AGENT, RoleBits_VIEWER),
      (AccessRoleIds_AGENT_EDITOR, ResourceType_AGENT, RoleBits_EDITOR),
      (AccessRoleIds_AGENT_OWNER, ResourceType_AGENT, RoleBits_OWNER),
      (AccessRoleIds_PROMPTGROUP_VIEWER, ResourceType_PROMPTGROUP, RoleBits_VIEWER),
      (AccessRoleIds_PROMPTGROUP_EDITOR, ResourceType_PROMPTGROUP, RoleBits_EDITOR),
      (AccessRoleIds_PROMPTGROUP_OWNER, ResourceType_PROMPTGROUP, RoleBits_OWNER),
      (AccessRoleIds_MCPSERVER_VIEWER, ResourceType_MCPSERVER, RoleBits_VIEWER),
      (AccessRoleIds_MCPSERVER_EDITOR, ResourceType_MCPSERVER, RoleBits_EDITOR),
      (AccessRoleIds_MCPSERVER_OWNER, ResourceType_MCPSERVER, RoleBits_OWNER),
      (AccessRoleIds_REMOTE_AGENT_VIEWER, ResourceType_REMOTE_AGENT, RoleBits_VIEWER),
      (AccessRoleIds_REMOTE_AGENT_EDITOR, ResourceType_REMOTE_AGENT, RoleBits_EDITOR),
      (AccessRoleIds_REMOTE_AGENT_OWNER, ResourceType_REMOTE_AGENT, RoleBits_OWNER)]"

definition seedDefaultRoles :: "(nat \<Rightarrow> string) \<Rightarrow> role_store \<Rightarrow> role_store" where
  "seedDefaultRoles nanoid accessRoleStore =
     snd (foldl (\<lambda>(n, st) (ident, rType, bits).
            if map_get ident st = None
            then (Suc n, map_set ident \<lparr>role_id = nanoid n, accessRoleId = ident,
                                         role_resourceType = rType, role_permBits = bits\<rparr> st)
            else (n, st))
          (0, accessRoleStore) defaultRoles)"

section \<open>The model index (api/models/index.js)\<close>

text \<open>
  The index binds the collection objects that the service uses to the methods above:
  \<open>aclEntry = {find: methods.findAclEntries, findOneAndDelete:
  methods.findOneAndDeleteAclEntry, ...}\<close> and
  \<open>accessRole = {find: methods.findRolesByResourceType, ...}\<close>.
\<close>

definition AclEntry_find :: "filter \<Rightarrow> acl_store \<Rightarrow> acl_entry list" where
  "AclEntry_find = findAclEntries"

definition AclEntry_findOneAndDelete ::
  "filter \<Rightarrow> acl_store \<Rightarrow> acl_entry option \<times> acl_store" where
  "AclEntry_findOneAndDelete = findOneAndDeleteAclEntry"

definition AccessRole_find :: "find_arg \<Rightarrow> role_store \<Rightarrow> access_role list" where
  "AccessRole_find = findRolesByResourceType"

section \<open>The permission service (PermissionService.js)\<close>

text \<open>
  A thrown \<open>Error\<close> is a value that carries its message; a function that can throw returns
  \<open>error + 'a\<close>. Calls to the logger have no effect on results and are left out.
\<close>

datatype error = Error string

definition validateResourceType :: "string \<Rightarrow> error + unit" where
  "validateResourceType rType =
     (if rType \<notin> set ResourceType_values
      then Inl (Error (''Invalid resourceType: '' @ rType @ ''. Valid types: '' @
                       join '', '' ResourceType_values))
      else Inr ())"

text \<open>
  \<open>grantPermission({principalType, principalId, resourceType, resourceId, accessRoleId,
  grantedBy})\<close>: its \<open>catch\<close> logs and throws the error again.
\<close>

definition PermissionService_grantPermission ::
  "string \<Rightarrow> jsstr \<Rightarrow> string \<Rightarrow> string \<Rightarrow> string \<Rightarrow> string \<Rightarrow> string \<Rightarrow> nat \<Rightarrow>
   role_store \<Rightarrow> acl_store \<Rightarrow> error + (acl_entry \<times> acl_store)" where
  "PermissionService_grantPermission pType pId rType rId roleIdent gBy newId now
     accessRoleStore aclStore =
     (if pType \<notin> set PrincipalType_values
      then Inl (Error (''Invalid principal type: '' @ pType))
      else if pType \<noteq> PrincipalType_PUBLIC \<and> \<not> truthy pId
      then Inl (Error ''Principal ID is required for user, group, and role principals'')
      else if truthy pId \<and> pType = PrincipalType_ROLE \<and>
              (case pId of Str s \<Rightarrow> length (trim s) = 0 | _ \<Rightarrow> True)
      then Inl (Error (''Invalid role ID: '' @ (case pId of Str s \<Rightarrow> s | _ \<Rightarrow> [])))
      else if rId = []
      then Inl (Error (''Invalid resource ID: '' @ rId))
      else
        (case validateResourceType rType of
           Inl e \<Rightarrow> Inl e
         | Inr _ \<Rightarrow>
            (case findRoleByIdentifier roleIdent accessRoleStore of
               None \<Rightarrow> Inl (Error (''Role '' @ roleIdent @ '' not found''))
             | Some role \<Rightarrow>
                 if role_resourceType role \<noteq> rType
                 then Inl (Error (''Role '' @ roleIdent @ '' is for '' @ role_resourceType role @
                                  '' resources, not '' @ rType))
                 else Inr (grantPermission pType pId rType rId (role_permBits role) gBy
                             (Str (role_id role)) newId now aclStore))))"

text \<open>
  The check \<open>typeof requiredPermission !== 'number' || requiredPermission < 1\<close> of the
  query functions.
\<close>

definition not_positive_number :: "jsval \<Rightarrow> bool" where
  "not_positive_number v = (case v of JNum n \<Rightarrow> n < 1 | _ \<Rightarrow> True)"

definition number_of :: "jsval \<Rightarrow> int" where
  "number_of v = (case v of JNum n \<Rightarrow> n | _ \<Rightarrow> 0)"

text \<open>
  \<open>checkPermission({userId, role, resourceType, resourceId, requiredPermission})\<close>. The
  \<open>catch\<close> throws again only an error whose message includes
  \<open>'requiredPermission must be'\<close>; any other error becomes \<open>false\<close>.
\<close>

definition PermissionService_checkPermission ::
  "string \<Rightarrow> jsstr \<Rightarrow> string \<Rightarrow> string \<Rightarrow> jsval \<Rightarrow> group_store \<Rightarrow> acl_store \<Rightarrow> error + bool" where
  "PermissionService_checkPermission userId role rType rId requiredPermission groupStore aclStore =
     (case
        (if not_positive_number requiredPermission
         then Inl (Error ''requiredPermission must be a positive number'')
         else
           (case validateResourceType rType of
              Inl e \<Rightarrow> Inl e
            | Inr _ \<Rightarrow>
                (let principals = getUserPrincipals userId role groupStore
                 in if length principals = 0 then Inr False
                    else Inr (hasPermission principals rType rId
                                (number_of requiredPermission) aclStore))))
      of
        Inr result \<Rightarrow> Inr result
      | Inl (Error message) \<Rightarrow>
          if js_includes message ''requiredPermission must be'' then Inl (Error message)
          else Inr False)"

definition PermissionService_getEffectivePermissions ::
  "string \<Rightarrow> jsstr \<Rightarrow> string \<Rightarrow> string \<Rightarrow> group_store \<Rightarrow> acl_store \<Rightarrow> error + int" where
  "PermissionService_getEffectivePermissions userId role rType rId groupStore aclStore =
     (case
        (case validateResourceType rType of
           Inl e \<Rightarrow> Inl e
         | Inr _ \<Rightarrow>
             (let principals = getUserPrincipals userId role groupStore
              in if length principals = 0 then Inr 0
                 else Inr (getEffectivePermissions principals rType rId aclStore)))
      of
        Inr result \<Rightarrow> Inr result
      | Inl (Error message) \<Rightarrow> Inr 0)"

definition PermissionService_findAccessibleResources ::
  "string \<Rightarrow> jsstr \<Rightarrow> string \<Rightarrow> jsval \<Rightarrow> group_store \<Rightarrow> acl_store \<Rightarrow> error + string list" where
  "PermissionService_findAccessibleResources userId role rType requiredPermissions groupStore
     aclStore =
     (case
        (if not_positive_number requiredPermissions
         then Inl (Error ''requiredPermissions must be a positive number'')
         else
           (case validateResourceType rType of
              Inl e \<Rightarrow> Inl e
            | Inr _ \<Rightarrow>
                (let principalsList = getUserPrincipals userId role groupStore
                 in if length principalsList = 0 then Inr []
                    else Inr (findAccessibleResources principalsList rType
                                (number_of requiredPermissions) aclStore))))
      of
        Inr result \<Rightarrow> Inr result
      | Inl (Error message) \<Rightarrow>
          if js_includes message ''requiredPermissions must be'' then Inl (Error message)
          else Inr [])"

text \<open>
  \<open>findPubliclyAccessibleResources({resourceType, requiredPermissions})\<close>: the filter
  passes the number itself as the value of \<open>permBits\<close>.
\<close>

definition PermissionService_findPubliclyAccessibleResources ::
  "string \<Rightarrow> jsval \<Rightarrow> acl_store \<Rightarrow> error + string list" where
  "PermissionService_findPubliclyAccessibleResources rType requiredPermissions aclStore =
     (case
        (if not_positive_number requiredPermissions
         then Inl (Error ''requiredPermissions must be a positive number'')
         else
           (case validateResourceType rType of
              Inl e \<Rightarrow> Inl e
            | Inr _ \<Rightarrow>
                (let entries = AclEntry_find
                       [(''principalType'', JStr PrincipalType_PUBLIC),
                        (''resourceType'', JStr rType),
                        (''permBits'', requiredPermissions)] aclStore
                 in Inr (foldl (\<lambda>ids e. set_add (resourceId e) ids) [] entries))))
      of
        Inr result \<Rightarrow> Inr result
      | Inl (Error message) \<Rightarrow>
          if js_includes message ''requiredPermissions must be'' then Inl (Error message)
          else Inr [])"

definition PermissionService_hasPublicPermission ::
  "string \<Rightarrow> string \<Rightarrow> jsval \<Rightarrow> acl_store \<Rightarrow> error + bool" where
  "PermissionService_hasPublicPermission rType rId requiredPermissions aclStore =
     (case
        (if not_positive_number requiredPermissions
         then Inl (Error ''requiredPermissions must be a positive number'')
         else
           (case validateResourceType rType of
              Inl e \<Rightarrow> Inl e
            | Inr _ \<Rightarrow>
                (let publicPrincipal = [\<lparr>principalType = PrincipalType_PUBLIC,
                                          principalId = Undefined\<rparr>];
                     entries = findEntriesByPrincipalsAndResource publicPrincipal rType rId aclStore
                 in Inr (list_ex (\<lambda>entry. js_and (permBits entry)
                              (number_of requiredPermissions) = number_of requiredPermissions)
                           entries))))
      of
        Inr result \<Rightarrow> Inr result
      | Inl (Error message) \<Rightarrow>
          if js_includes message ''requiredPermissions must be'' then Inl (Error message)
          else Inr False)"


text \<open>
  \<open>bulkUpdateResourcePermissions({resourceType, resourceId, updatedPrincipals,
  revokedPrincipals, grantedBy})\<close>. A principal of the request carries \<open>type\<close>, \<open>id\<close>
  and \<open>accessRoleId\<close> (its display fields are left out); the element pushed to
  \<open>granted\<close> is a copy of these fields, the one pushed to \<open>revoked\<close> a copy without
  \<open>accessRoleId\<close>. \<open>nanoid n\<close> and \<open>clock n\<close> are the
  id and the time that the \<open>n\<close>-th grant of the call draws. The calls inside the two inner
  \<open>try\<close> blocks cannot throw, so their \<open>catch\<close> branches have no counterpart.
\<close>

record bulk_principal =
  p_type :: string
  p_id :: jsstr
  p_accessRoleId :: jsstr

record bulk_results =
  granted :: "bulk_principal list"
  updated :: "bulk_principal list"
  revoked :: "bulk_principal list"
  errors :: "(bulk_principal \<times> string) list"

definition bulk_grant_step ::
  "string \<Rightarrow> string \<Rightarrow> string \<Rightarrow> access_role js_map \<Rightarrow> (nat \<Rightarrow> string) \<Rightarrow> (nat \<Rightarrow> nat) \<Rightarrow>
   bulk_results \<times> acl_store \<times> nat \<Rightarrow> bulk_principal \<Rightarrow> bulk_results \<times> acl_store \<times> nat" where
  "bulk_grant_step rType rId gBy rolesMap nanoid clock state prin =
     (case state of (results, aclStore, n) \<Rightarrow>
        if \<not> truthy (p_accessRoleId prin)
        then (results\<lparr>errors := errors results @
                [(prin, ''accessRoleId is required for updated principals'')]\<rparr>,
              aclStore, n)
        else
          (let ident = (case p_accessRoleId prin of Str a \<Rightarrow> a | _ \<Rightarrow> [])
           in case map_get ident rolesMap of
                None \<Rightarrow>
                  (results\<lparr>errors := errors results @
                     [(prin, ''Role '' @ ident @ '' not found'')]\<rparr>, aclStore, n)
              | Some role \<Rightarrow>
                  (results\<lparr>granted := granted results @ [prin]\<rparr>,
                   snd (grantPermission (p_type prin) (p_id prin) rType rId
                          (role_permBits role) gBy (Str (role_id role)) (nanoid n) (clock n)
                          aclStore),
                   Suc n)))"

definition bulk_revoke_step ::
  "string \<Rightarrow> string \<Rightarrow> bulk_results \<times> acl_store \<Rightarrow> bulk_principal \<Rightarrow> bulk_results \<times> acl_store" where
  "bulk_revoke_step rType rId state prin =
     (case state of (results, aclStore) \<Rightarrow>
        (results\<lparr>revoked := revoked results @ [prin\<lparr>p_accessRoleId := Undefined\<rparr>]\<rparr>,
         snd (AclEntry_findOneAndDelete
                [(''principalType'', JStr (p_type prin)),
                 (''principalId'', val_of (p_id prin)),
                 (''resourceType'', JStr rType), (''resourceId'', JStr rId)] aclStore)))"

definition PermissionService_bulkUpdateResourcePermissions ::
  "string \<Rightarrow> string \<Rightarrow> bulk_principal list \<Rightarrow> bulk_principal list \<Rightarrow> string \<Rightarrow>
   (nat \<Rightarrow> string) \<Rightarrow> (nat \<Rightarrow> nat) \<Rightarrow> role_store \<Rightarrow> acl_store \<Rightarrow>
   error + (bulk_results \<times> acl_store)" where
  "PermissionService_bulkUpdateResourcePermissions rType rId updatedPrincipals revokedPrincipals
     gBy nanoid clock accessRoleStore aclStore =
     (if rId = [] then Inl (Error (''Invalid resource ID: '' @ rId))
      else
        (let roles = AccessRole_find (ArgObject [(''resourceType'', JStr rType)]) accessRoleStore;
             rolesMap = foldl (\<lambda>m role. map_set (accessRoleId role) role m) [] roles;
             results = \<lparr>granted = [], updated = [], revoked = [], errors = []\<rparr>;
             afterGrants = foldl (bulk_grant_step rType rId gBy rolesMap nanoid clock)
                             (results, aclStore, 0) updatedPrincipals;
             afterRevokes = foldl (bulk_revoke_step rType rId)
                              (fst afterGrants, fst (snd afterGrants)) revokedPrincipals
         in Inr afterRevokes))"


section \<open>Sequences of calls and example states\<close>

text \<open>The tuple that identifies an entry.\<close>

definition tuple_of :: "acl_entry \<Rightarrow> string \<times> jsstr \<times> string \<times> string" where
  "tuple_of e = (principalType e, principalId e, resourceType e, resourceId e)"

text \<open>
  A call of \<open>grantPermission\<close> with its arguments, the id that \<open>nanoid()\<close> returns in it
  and its time; \<open>grants\<close> runs a sequence of calls on a store.
\<close>

datatype grant_call = GrantCall string jsstr string string int string jsstr string nat

fun grants :: "grant_call list \<Rightarrow> acl_store \<Rightarrow> acl_store" where
  "grants [] s = s"
| "grants (GrantCall pType pId rType rId bits gBy rl newId now # cs) s =
     grants cs (snd (grantPermission pType pId rType rId bits gBy rl newId now s))"

text \<open>A store with one entry: user \<open>u1\<close> holds VIEW on agent \<open>a1\<close>, granted through role \<open>r1\<close>.\<close>

definition example_store :: acl_store where
  "example_store = [(''id1'', \<lparr>principalType = ''user'', principalId = Str ''u1'', entry_id = ''id1'',
      principalModel = Str ''User'', resourceType = ''agent'', resourceId = ''a1'',
      permBits = 1, roleId = Str ''r1'', grantedBy = ''admin'', grantedAt = 5\<rparr>)]"

text \<open>
  The number that a bitwise operator reads from an absent operand: \<open>b | undefined\<close> is
  \<open>b | 0\<close>, and \<open>~null\<close> is \<open>~0\<close>.
\<close>
definition or0 :: "int option \<Rightarrow> int" where
  "or0 v = (case v of Some n \<Rightarrow> n | None \<Rightarrow> 0)"

text \<open>
  The entries that claim C1 names: those of the resource whose
  \<open>(principalType, principalId)\<close> is that of an element of the principal list, or whose
  \<open>principalType\<close> is PUBLIC.
\<close>
definition entries_of_principals_or_public ::
  "principal list \<Rightarrow> string \<Rightarrow> string \<Rightarrow> acl_store \<Rightarrow> acl_entry list" where
  "entries_of_principals_or_public P T R s =
     filter (\<lambda>e. resourceType e = T \<and> resourceId e = R \<and>
                 (list_ex (\<lambda>p. principalType e = principalType p \<and> principalId e = principalId p) P
                  \<or> principalType e = PrincipalType_PUBLIC)) (map_values s)"

text \<open>The entries of the resource that belong to an element of the principal list.\<close>
definition entries_of_principals ::
  "principal list \<Rightarrow> string \<Rightarrow> string \<Rightarrow> acl_store \<Rightarrow> acl_entry list" where
  "entries_of_principals P T R s =
     filter (\<lambda>e. resourceType e = T \<and> resourceId e = R \<and>
                 list_ex (\<lambda>p. principalType e = principalType p \<and> principalId e = principalId p) P)
       (map_values s)"

text \<open>The bitwise OR (\<open>|\<close>) of the \<open>permBits\<close> of a list of entries.\<close>
definition bitwise_or_of :: "acl_entry list \<Rightarrow> int" where
  "bitwise_or_of es = foldl js_or 0 (map permBits es)"

text \<open>The value that claim C1 gives to \<open>getEffectivePermissions\<close>.\<close>
definition claimed_effective_permissions ::
  "principal list \<Rightarrow> string \<Rightarrow> string \<Rightarrow> acl_store \<Rightarrow> int" where
  "claimed_effective_permissions P T R s = bitwise_or_of (entries_of_principals_or_public P T R s)"

text \<open>
  The value that claim C6 gives to \<open>hasPermission\<close>, with the matching entries that the
  specification names: some entry of a principal of the list, or of the public, holds all
  bits of the mask.
\<close>
definition claimed_has_permission ::
  "principal list \<Rightarrow> string \<Rightarrow> string \<Rightarrow> int \<Rightarrow> acl_store \<Rightarrow> bool" where
  "claimed_has_permission P T R b s =
     list_ex (\<lambda>e. js_and (permBits e) b = b) (entries_of_principals_or_public P T R s)"

text \<open>The store after a grant of VIEW on agent \<open>a1\<close> to the public.\<close>
definition public_store :: acl_store where
  "public_store = snd (grantPermission ''public'' Null ''agent'' ''a1'' 1 ''admin'' (Str ''r1'')
                         ''id1'' 5 [])"

text \<open>One GROUP principal for each group whose \<open>memberIds\<close> hold the user, in store order.\<close>
definition group_principals :: "string \<Rightarrow> group_store \<Rightarrow> principal list" where
  "group_principals userId groupStore =
     map (\<lambda>g. \<lparr>principalType = PrincipalType_GROUP, principalId = Str (group_id g)\<rparr>)
       (filter (\<lambda>g. case memberIds g of None \<Rightarrow> False | Some ms \<Rightarrow> userId \<in> set ms)
          (map_values groupStore))"

text \<open>A role that is a string with a character that is not white space.\<close>
definition non_blank :: "jsstr \<Rightarrow> bool" where
  "non_blank role = (case role of Str r \<Rightarrow> list_ex (\<lambda>c. \<not> js_whitespace c) r | _ \<Rightarrow> False)"

text \<open>Three groups: \<open>g1\<close> holds \<open>u1\<close> and \<open>u2\<close>, \<open>g2\<close> has no member list, \<open>g3\<close> holds \<open>u2\<close>.\<close>
definition example_groups :: group_store where
  "example_groups =
     [(''g1'', \<lparr>group_id = ''g1'', memberIds = Some [''u1'', ''u2'']\<rparr>),
      (''g2'', \<lparr>group_id = ''g2'', memberIds = None\<rparr>),
      (''g3'', \<lparr>group_id = ''g3'', memberIds = Some [''u2'']\<rparr>)]"

text \<open>User \<open>u1\<close> holds VIEW and group \<open>g1\<close> holds EDIT on agent \<open>a1\<close>.\<close>
definition two_entry_store :: acl_store where
  "two_entry_store =
     grants [GrantCall ''user'' (Str ''u1'') ''agent'' ''a1'' 1 ''admin'' Undefined ''id1'' 1,
             GrantCall ''group'' (Str ''g1'') ''agent'' ''a1'' 2 ''admin'' Undefined ''id2'' 2] []"

text \<open>The store after a grant of VIEW|EDIT (the bits of an editor role) on agent \<open>a1\<close> to the public.\<close>
definition public_editor_store :: acl_store where
  "public_editor_store = snd (grantPermission ''public'' Null ''agent'' ''a1'' 3 ''admin''
                                (Str ''r2'') ''id1'' 5 [])"

text \<open>
  The list that claim C2 gives to \<open>findPubliclyAccessibleResources\<close>: the resource ids, without
  repetition, of the PUBLIC entries of the type that hold all requested bits.
\<close>
definition claimed_publicly_accessible :: "string \<Rightarrow> int \<Rightarrow> acl_store \<Rightarrow> string list" where
  "claimed_publicly_accessible rType b aclStore =
     foldl (\<lambda>ids e. set_add (resourceId e) ids) []
       (filter (\<lambda>e. principalType e = PrincipalType_PUBLIC \<and> resourceType e = rType \<and>
                     js_and (permBits e) b = b) (map_values aclStore))"

text \<open>
  A bulk request for three principals: two name seeded roles of agents, the third a role
  that does not exist.
\<close>
definition bulk_request :: "bulk_principal list" where
  "bulk_request =
     [\<lparr>p_type = ''user'', p_id = Str ''u1'', p_accessRoleId = Str ''agent_viewer''\<rparr>,
      \<lparr>p_type = ''user'', p_id = Str ''u2'', p_accessRoleId = Str ''agent_editor''\<rparr>,
      \<lparr>p_type = ''group'', p_id = Str ''g1'', p_accessRoleId = Str ''no_such_role''\<rparr>]"

section \<open>Properties of the stores\<close>

lemmas enum_defs =
  PrincipalType_USER_def PrincipalType_GROUP_def PrincipalType_ROLE_def
  PrincipalType_PUBLIC_def PrincipalType_values_def
  PrincipalModel_USER_def PrincipalModel_GROUP_def PrincipalModel_ROLE_def
  ResourceType_AGENT_def ResourceType_PROMPTGROUP_def ResourceType_MCPSERVER_def
  ResourceType_REMOTE_AGENT_def ResourceType_values_def
  AccessRoleIds_AGENT_VIEWER_def AccessRoleIds_AGENT_EDITOR_def AccessRoleIds_AGENT_OWNER_def
  RoleBits_VIEWER_def RoleBits_EDITOR_def RoleBits_OWNER_def

lemma tuple_match_iff: "tuple_match pT pI rT rI e \<longleftrightarrow> tuple_of e = (pT, pI, rT, rI)"
  by (auto simp: tuple_match_def tuple_of_def)

lemma tuple_of_grant_update [simp]: "tuple_of (grant_update b g n r e) = tuple_of e"
  by (simp add: grant_update_def tuple_of_def Let_def)

lemma tuple_of_modify_update [simp]: "tuple_of (modify_update a r e) = tuple_of e"
  by (simp add: modify_update_def tuple_of_def Let_def split: option.splits)

lemma mutate_first_keys: "map fst (mutate_first P f s) = map fst s"
  by (induction s) auto

lemma mutate_first_tuples:
  "(\<And>v. t (f v) = t v) \<Longrightarrow> map t (map_values (mutate_first P f s)) = map t (map_values s)"
  by (induction s) (auto simp: map_values_def)

lemma find_mutate_first:
  "(\<And>v. P v \<Longrightarrow> P (f v)) \<Longrightarrow>
   find P (map_values (mutate_first P f s)) = map_option f (find P (map_values s))"
  by (induction s) (auto simp: map_values_def)

lemma map_set_mem:
  "(a, b) \<in> set (map_set k v s) \<Longrightarrow> b = v \<or> (a, b) \<in> set s"
  by (induction s) (auto split: if_splits)

lemma map_set_values_subset:
  "set (map_values (map_set k v s)) \<subseteq> insert v (set (map_values s))"
proof
  fix b assume "b \<in> set (map_values (map_set k v s))"
  then obtain a where "(a, b) \<in> set (map_set k v s)" by (auto simp: map_values_def)
  from map_set_mem[OF this] show "b \<in> insert v (set (map_values s))"
    by (force simp: map_values_def)
qed

lemma map_set_distinct:
  "distinct (map t (map_values s)) \<Longrightarrow> t v \<notin> t ` set (map_values s) \<Longrightarrow>
   distinct (map t (map_values (map_set k v s)))"
proof (induction s)
  case Nil
  then show ?case by (simp add: map_values_def)
next
  case (Cons kv s)
  obtain k' v' where kv: "kv = (k', v')" by (cases kv)
  show ?case
  proof (cases "k' = k")
    case True
    with Cons.prems kv show ?thesis by (auto simp: map_values_def)
  next
    case False
    from Cons.prems kv have d: "distinct (map t (map_values s))"
      and nv: "t v \<notin> t ` set (map_values s)" and ne: "t v' \<noteq> t v"
      and nv': "t v' \<notin> t ` set (map_values s)"
      by (auto simp: map_values_def)
    have "t v' \<notin> t ` set (map_values (map_set k v s))"
      using map_set_values_subset[of k v s] ne nv' by auto
    with Cons.IH[OF d nv] False kv show ?thesis by (auto simp: map_values_def)
  qed
qed

lemma find_None_iff_tuple:
  "find (tuple_match pT pI rT rI) xs = None \<longleftrightarrow> (pT, pI, rT, rI) \<notin> tuple_of ` set xs"
  by (force simp: find_None_iff tuple_match_iff)

lemma find_map_set:
  "P v \<Longrightarrow> find P (map_values s) = None \<Longrightarrow> find P (map_values (map_set k v s)) = Some v"
  by (induction s) (auto simp: map_values_def split: if_splits)

lemma grant_distinct:
  assumes "distinct (map tuple_of (map_values s))"
  shows "distinct (map tuple_of (map_values (snd (grantPermission pT pI rT rI b g r i n s))))"
proof (cases "find (tuple_match pT pI rT rI) (map_values s)")
  case None
  let ?e = "\<lparr>principalType = pT, principalId = pI, entry_id = i,
                 principalModel =
                   (if pT = PrincipalType_USER then Str PrincipalModel_USER
                    else if pT = PrincipalType_GROUP then Str PrincipalModel_GROUP
                    else if pT = PrincipalType_ROLE then Str PrincipalModel_ROLE
                    else Undefined),
                 resourceType = rT, resourceId = rI, permBits = b, roleId = r,
                 grantedBy = g, grantedAt = n\<rparr>"
  have "tuple_of ?e = (pT, pI, rT, rI)" by (simp add: tuple_of_def)
  with None have "tuple_of ?e \<notin> tuple_of ` set (map_values s)"
    by (simp add: find_None_iff_tuple)
  from map_set_distinct[OF assms this] None show ?thesis
    by (simp add: grantPermission_def Let_def)
next
  case (Some e)
  then show ?thesis using assms
    by (simp add: grantPermission_def mutate_first_tuples)
qed

lemma grant_find:
  "find (tuple_match pT pI rT rI)
     (map_values (snd (grantPermission pT pI rT rI b g r i n s)))
   = Some (fst (grantPermission pT pI rT rI b g r i n s))"
proof (cases "find (tuple_match pT pI rT rI) (map_values s)")
  case None
  then show ?thesis
    by (simp add: grantPermission_def Let_def find_map_set tuple_match_def)
next
  case (Some e)
  have "\<And>v. tuple_match pT pI rT rI v \<Longrightarrow> tuple_match pT pI rT rI (grant_update b g n r v)"
    by (simp add: tuple_match_iff)
  from find_mutate_first[of "tuple_match pT pI rT rI" "grant_update b g n r" s, OF this] Some
  show ?thesis by (simp add: grantPermission_def)
qed

lemma grant_permBits: "permBits (fst (grantPermission pT pI rT rI b g r i n s)) = b"
  by (simp add: grantPermission_def grant_update_def Let_def split: option.splits)

lemma grants_distinct:
  "distinct (map tuple_of (map_values s)) \<Longrightarrow> distinct (map tuple_of (map_values (grants cs s)))"
proof (induction cs arbitrary: s)
  case Nil
  then show ?case by simp
next
  case (Cons c cs)
  then show ?case by (cases c) (simp add: grant_distinct)
qed

lemma distinct_filter_le1:
  "distinct (map t xs) \<Longrightarrow> length (filter (\<lambda>x. t x = y) xs) \<le> 1"
proof (induction xs)
  case Nil
  then show ?case by simp
next
  case (Cons x xs)
  show ?case
  proof (cases "t x = y")
    case True
    from Cons.prems have "t x \<notin> set (map t xs)" by simp
    then have "\<forall>z\<in>set xs. t z \<noteq> t x" by (simp add: image_iff) metis
    with True have "filter (\<lambda>x. t x = y) xs = []"
      by (simp add: filter_empty_conv)
    with True show ?thesis by simp
  next
    case False
    with Cons show ?thesis by simp
  qed
qed

lemma tuple_filter_le1:
  "distinct (map tuple_of xs) \<Longrightarrow> length (filter (tuple_match pT pI rT rI) xs) \<le> 1"
proof -
  have "tuple_match pT pI rT rI = (\<lambda>x. tuple_of x = (pT, pI, rT, rI))"
    by (rule ext) (simp add: tuple_match_iff)
  then show "distinct (map tuple_of xs) \<Longrightarrow> ?thesis"
    using distinct_filter_le1[of tuple_of xs "(pT, pI, rT, rI)"] by simp
qed

lemma find_Some_filter:
  "find P xs = Some e \<Longrightarrow> length (filter P xs) \<le> 1 \<Longrightarrow> filter P xs = [e]"
proof (induction xs)
  case Nil
  then show ?case by simp
next
  case (Cons x xs)
  show ?case
  proof (cases "P x")
    case True
    with Cons.prems show ?thesis by simp
  next
    case False
    with Cons show ?thesis by simp
  qed
qed


section \<open>Granting\<close>

text \<open>
  C3. Whatever sequence of \<open>grantPermission\<close> calls has run on the empty store, the store
  holds at most one entry for every tuple \<open>(principalType, principalId, resourceType,
  resourceId)\<close>; and two further grants to one tuple, with any bits and roles, leave exactly
  one entry for it, whose \<open>permBits\<close> are those of the second grant.
\<close>

theorem C3_grant_one_entry_per_tuple:
  "length (filter (tuple_match pT pI rT rI) (map_values (grants calls []))) \<le> 1 \<and>
   (\<exists>e. filter (tuple_match pT pI rT rI)
          (map_values (snd (grantPermission pT pI rT rI b2 g2 r2 id2 t2
             (snd (grantPermission pT pI rT rI b1 g1 r1 id1 t1 (grants calls [])))))) = [e]
        \<and> permBits e = b2)"
proof -
  let ?s = "grants calls []"
  let ?s1 = "snd (grantPermission pT pI rT rI b1 g1 r1 id1 t1 ?s)"
  let ?g2 = "grantPermission pT pI rT rI b2 g2 r2 id2 t2 ?s1"
  have d0: "distinct (map tuple_of (map_values ?s))"
    using grants_distinct[of "[]" calls] by (simp add: map_values_def)
  have d2: "distinct (map tuple_of (map_values (snd ?g2)))"
    by (intro grant_distinct d0)
  have "filter (tuple_match pT pI rT rI) (map_values (snd ?g2)) = [fst ?g2]"
    by (rule find_Some_filter[OF grant_find tuple_filter_le1[OF d2]])
  then show ?thesis using tuple_filter_le1[OF d0] grant_permBits by blast
qed



theorem C3_witness:
  "map permBits (filter (tuple_match ''user'' (Str ''u1'') ''agent'' ''a1'')
      (map_values (snd (grantPermission ''user'' (Str ''u1'') ''agent'' ''a1'' 3 ''root'' (Str ''r2'') ''id3'' 2
             (snd (grantPermission ''user'' (Str ''u1'') ''agent'' ''a1'' 1 ''root'' (Str ''r1'') ''id2'' 1
                (grants [GrantCall ''group'' (Str ''g1'') ''agent'' ''a1'' 15 ''root'' Undefined ''id1'' 0] []))))))) = [3]"
  using C3_grant_one_entry_per_tuple[of "''user''" "Str ''u1''" "''agent''" "''a1''"
      "[GrantCall ''group'' (Str ''g1'') ''agent'' ''a1'' 15 ''root'' Undefined ''id1'' 0]"
      3 "''root''" "Str ''r2''" "''id3''" 2 1 "''root''" "Str ''r1''" "''id2''" 1]
  by auto


text \<open>
  C10. When \<open>grantPermission\<close> finds an entry for the tuple and the new grant carries no
  \<open>roleId\<close> (\<open>undefined\<close>, \<open>null\<close> or the empty string), the entry keeps its \<open>roleId\<close>
  and every other field, except \<open>permBits\<close>, \<open>grantedBy\<close> and \<open>grantedAt\<close>, which take
  the values of the new grant; the updated entry is the one the store then holds for the
  tuple.
\<close>

theorem C10_regrant_keeps_roleId:
  assumes "find (tuple_match pT pI rT rI) (map_values s) = Some existing"
    and "\<not> truthy rl"
  shows "fst (grantPermission pT pI rT rI bits gBy rl newId now s)
           = existing\<lparr>permBits := bits, grantedBy := gBy, grantedAt := now\<rparr>
       \<and> roleId (fst (grantPermission pT pI rT rI bits gBy rl newId now s)) = roleId existing
       \<and> find (tuple_match pT pI rT rI)
            (map_values (snd (grantPermission pT pI rT rI bits gBy rl newId now s)))
           = Some (existing\<lparr>permBits := bits, grantedBy := gBy, grantedAt := now\<rparr>)"
proof -
  have 1: "fst (grantPermission pT pI rT rI bits gBy rl newId now s)
           = existing\<lparr>permBits := bits, grantedBy := gBy, grantedAt := now\<rparr>"
    using assms by (simp add: grantPermission_def grant_update_def Let_def)
  then show ?thesis using grant_find[of pT pI rT rI bits gBy rl newId now s] by simp
qed


theorem C10_witness:
  "fst (grantPermission ''user'' (Str ''u1'') ''agent'' ''a1'' 3 ''root'' Undefined ''id2'' 9 example_store)
     = \<lparr>principalType = ''user'', principalId = Str ''u1'', entry_id = ''id1'',
      principalModel = Str ''User'', resourceType = ''agent'', resourceId = ''a1'',
      permBits = 3, roleId = Str ''r1'', grantedBy = ''root'', grantedAt = 9\<rparr>"
proof -
  have f: "find (tuple_match ''user'' (Str ''u1'') ''agent'' ''a1'') (map_values example_store)
     = Some (snd (hd example_store))"
    by (simp add: example_store_def map_values_def tuple_match_def)
  have t: "\<not> truthy Undefined" by simp
  from C10_regrant_keeps_roleId[OF f t, of 3 "''root''" "''id2''" 9]
  show ?thesis by (simp add: example_store_def)
qed

section \<open>Numbers\<close>

lemma toInt32_signed_take_bit: "toInt32 x = signed_take_bit 31 x"
proof -
  have "signed_take_bit 31 x = take_bit 32 (x + 2 ^ 31) - 2 ^ 31"
    by (simp add: signed_take_bit_eq_take_bit_shift)
  also have "\<dots> = (x + 2 ^ 31) mod 2 ^ 32 - 2 ^ 31"
    by (simp add: take_bit_eq_mod)
  finally have s: "signed_take_bit 31 x = (x + 2 ^ 31) mod 2 ^ 32 - 2 ^ 31" .
  let ?m = "x mod 2 ^ 32"
  have m: "0 \<le> ?m" "?m < 2 ^ 32" by simp_all
  have e: "(x + 2 ^ 31) mod 2 ^ 32 = (?m + 2 ^ 31) mod 2 ^ 32"
    by (simp add: mod_add_left_eq)
  show ?thesis
  proof (cases "?m \<ge> 2 ^ 31")
    case True
    have "(?m + 2 ^ 31) mod 2 ^ 32 = (?m + 2 ^ 31 - 2 ^ 32) mod 2 ^ 32"
      by (metis mod_diff_right_eq mod_self diff_zero)
    also have "\<dots> = ?m + 2 ^ 31 - 2 ^ 32"
      using True m by (intro mod_pos_pos_trivial) simp_all
    finally show ?thesis using True s e by (simp add: toInt32_def Let_def)
  next
    case False
    have "(?m + 2 ^ 31) mod 2 ^ 32 = ?m + 2 ^ 31"
      using False m by (intro mod_pos_pos_trivial) simp_all
    then show ?thesis using False s e by (simp add: toInt32_def Let_def)
  qed
qed

lemma int32_iff: "int32 x \<longleftrightarrow> toInt32 x = x"
  by (simp add: int32_def toInt32_signed_take_bit signed_take_bit_int_eq_self_iff)

lemma int32_toInt32 [simp]: "int32 (toInt32 x)"
  by (simp add: int32_iff toInt32_signed_take_bit)

lemma int32_or: "int32 a \<Longrightarrow> int32 b \<Longrightarrow> int32 (a OR b)"
  unfolding int32_iff toInt32_signed_take_bit
  by (rule bit_eqI) (metis bit_or_iff bit_signed_take_bit_iff)

lemma int32_and: "int32 a \<Longrightarrow> int32 b \<Longrightarrow> int32 (a AND b)"
  unfolding int32_iff toInt32_signed_take_bit
  by (rule bit_eqI) (metis bit_and_iff bit_signed_take_bit_iff)

lemma int32_not: "int32 a \<Longrightarrow> int32 (NOT a)"
  unfolding int32_iff toInt32_signed_take_bit
  by (rule bit_eqI) (metis bit_not_iff bit_signed_take_bit_iff possible_bit_int)

lemma int32_js_or [simp]: "int32 (js_or a b)"
  by (simp add: js_or_def int32_or)

lemma int32_js_and [simp]: "int32 (js_and a b)"
  by (simp add: js_and_def int32_and)

lemma js_or_0: "int32 b \<Longrightarrow> js_or b 0 = b"
  by (simp add: js_or_def int32_iff toInt32_def[of 0])

lemma js_and_not_0: "int32 b \<Longrightarrow> js_and b (js_not 0) = b"
  by (simp add: js_and_def js_not_def int32_iff toInt32_def[of 0] toInt32_def[of "-1"])

lemma js_or_int32: "int32 a \<Longrightarrow> int32 b \<Longrightarrow> js_or a b = a OR b"
  by (simp add: js_or_def int32_iff)

section \<open>Modifying\<close>

lemma modify_update_bits:
  assumes "int32 (permBits e)"
  shows "modify_update addBits removeBits e
         = e\<lparr>permBits := js_and (js_or (permBits e) (or0 addBits)) (js_not (or0 removeBits))\<rparr>"
proof -
  let ?b1 = "js_or (permBits e) (or0 addBits)"
  let ?e1 = "(case addBits of
                  Some a \<Rightarrow> if a \<noteq> 0 then e\<lparr>permBits := js_or (permBits e) a\<rparr> else e
                | None \<Rightarrow> e)"
  have e1: "?e1 = e\<lparr>permBits := ?b1\<rparr>"
    using assms by (cases addBits) (simp_all add: or0_def js_or_0)
  have i1: "int32 ?b1" by simp
  show ?thesis
    unfolding modify_update_def Let_def e1
    using i1 by (cases removeBits) (simp_all add: or0_def js_and_not_0)
qed

text \<open>
  C8. When the store holds an entry \<open>e\<close> for the tuple, whose bits \<open>b\<close> are a 32-bit
  bitmask, \<open>modifyPermissionBits\<close> returns that entry with its bits set to
  \<open>(b | addBits) & ~removeBits\<close> (an absent operand counting as 0) and all other fields as
  they were; the store then holds the returned entry for the tuple, under the same keys as
  before. When the store holds no entry for the tuple, the call returns \<open>null\<close> and
  the store is unchanged.
\<close>
theorem C8_modifyPermissionBits:
  "(find (tuple_match pT pI rT rI) (map_values s) = Some e \<and> int32 (permBits e) \<longrightarrow>
      fst (modifyPermissionBits pT pI rT rI addBits removeBits s)
        = Some (e\<lparr>permBits := js_and (js_or (permBits e) (or0 addBits)) (js_not (or0 removeBits))\<rparr>)
      \<and> find (tuple_match pT pI rT rI)
            (map_values (snd (modifyPermissionBits pT pI rT rI addBits removeBits s)))
          = fst (modifyPermissionBits pT pI rT rI addBits removeBits s)
      \<and> map fst (snd (modifyPermissionBits pT pI rT rI addBits removeBits s)) = map fst s)
   \<and> (find (tuple_match pT pI rT rI) (map_values s) = None \<longrightarrow>
        modifyPermissionBits pT pI rT rI addBits removeBits s = (None, s))"
proof (intro conjI impI)
  assume "find (tuple_match pT pI rT rI) (map_values s) = None"
  then show "modifyPermissionBits pT pI rT rI addBits removeBits s = (None, s)"
    by (simp add: modifyPermissionBits_def)
next
  assume a: "find (tuple_match pT pI rT rI) (map_values s) = Some e \<and> int32 (permBits e)"
  then show "fst (modifyPermissionBits pT pI rT rI addBits removeBits s)
        = Some (e\<lparr>permBits := js_and (js_or (permBits e) (or0 addBits)) (js_not (or0 removeBits))\<rparr>)"
    by (simp add: modifyPermissionBits_def modify_update_bits)
  have "\<And>v. tuple_match pT pI rT rI v \<Longrightarrow> tuple_match pT pI rT rI (modify_update addBits removeBits v)"
    by (simp add: tuple_match_iff)
  from find_mutate_first[of "tuple_match pT pI rT rI" "modify_update addBits removeBits" s, OF this] a
  show "find (tuple_match pT pI rT rI)
            (map_values (snd (modifyPermissionBits pT pI rT rI addBits removeBits s)))
          = fst (modifyPermissionBits pT pI rT rI addBits removeBits s)"
    by (simp add: modifyPermissionBits_def)
  from a show "map fst (snd (modifyPermissionBits pT pI rT rI addBits removeBits s)) = map fst s"
    by (simp add: modifyPermissionBits_def mutate_first_keys)
qed

lemma example_find:
  "find (tuple_match ''user'' (Str ''u1'') ''agent'' ''a1'') (map_values example_store)
     = Some (snd (hd example_store))"
  by (simp add: example_store_def map_values_def tuple_match_def)

theorem C8_witness:
  "map_option permBits (fst (modifyPermissionBits ''user'' (Str ''u1'') ''agent'' ''a1''
      (Some 2) (Some 1) example_store)) = Some 2
   \<and> modifyPermissionBits ''group'' (Str ''g1'') ''agent'' ''a1'' (Some 2) None example_store
      = (None, example_store)"
proof -
  have i: "int32 (permBits (snd (hd example_store)))"
    by (simp add: example_store_def int32_def)
  have n: "find (tuple_match ''group'' (Str ''g1'') ''agent'' ''a1'') (map_values example_store) = None"
    by (simp add: example_store_def map_values_def tuple_match_def)
  have v: "js_and (js_or 1 2) (js_not 1) = 2"
    by (simp add: js_and_def js_or_def js_not_def toInt32_def)
  from C8_modifyPermissionBits[of "''user''" "Str ''u1''" "''agent''" "''a1''" example_store
      "snd (hd example_store)" "Some 2" "Some 1"] example_find i
  have "map_option permBits (fst (modifyPermissionBits ''user'' (Str ''u1'') ''agent'' ''a1''
      (Some 2) (Some 1) example_store)) = Some 2"
    by (simp add: or0_def example_store_def v)
  moreover from C8_modifyPermissionBits[of "''group''" "Str ''g1''" "''agent''" "''a1''" example_store
      "snd (hd example_store)" "Some 2" None] n
  have "modifyPermissionBits ''group'' (Str ''g1'') ''agent'' ''a1'' (Some 2) None example_store
      = (None, example_store)" by simp
  ultimately show ?thesis by simp
qed

section \<open>Effective permissions\<close>

lemma principals_some_with_public:
  assumes "list_ex (\<lambda>p. principalType p = PrincipalType_PUBLIC) P"
  shows "principals_some P e \<longleftrightarrow>
         (list_ex (\<lambda>p. principalType e = principalType p \<and> principalId e = principalId p) P
          \<or> principalType e = PrincipalType_PUBLIC)"
  using assms unfolding principals_some_def list_ex_iff by (auto split: if_splits)

lemma principals_some_without_public:
  assumes "\<not> list_ex (\<lambda>p. principalType p = PrincipalType_PUBLIC) P"
  shows "principals_some P e \<longleftrightarrow>
         list_ex (\<lambda>p. principalType e = principalType p \<and> principalId e = principalId p) P"
  using assms unfolding principals_some_def list_ex_iff by (auto split: if_splits)

lemma getEffectivePermissions_fold:
  "getEffectivePermissions P T R s
     = bitwise_or_of (findEntriesByPrincipalsAndResource P T R s)"
  by (simp add: getEffectivePermissions_def bitwise_or_of_def foldl_map)

text \<open>
  C1 (amended). \<open>getEffectivePermissions(P, T, R)\<close> is the bitwise OR of \<open>permBits\<close> over
  the stored entries of \<open>(T, R)\<close> whose \<open>(principalType, principalId)\<close> is that of an
  element of \<open>P\<close>, together with the PUBLIC entries of \<open>(T, R)\<close> exactly when \<open>P\<close> has
  an element of type PUBLIC.
\<close>
theorem C1_effective_permissions:
  "getEffectivePermissions P T R s =
     (if list_ex (\<lambda>p. principalType p = PrincipalType_PUBLIC) P
      then bitwise_or_of (entries_of_principals_or_public P T R s)
      else bitwise_or_of (entries_of_principals P T R s))"
proof (cases "list_ex (\<lambda>p. principalType p = PrincipalType_PUBLIC) P")
  case True
  have "findEntriesByPrincipalsAndResource P T R s = entries_of_principals_or_public P T R s"
    unfolding findEntriesByPrincipalsAndResource_def entries_of_principals_or_public_def
    by (rule filter_cong) (auto simp: principals_some_with_public[OF True])
  with True show ?thesis by (simp add: getEffectivePermissions_fold)
next
  case False
  have "findEntriesByPrincipalsAndResource P T R s = entries_of_principals P T R s"
    unfolding findEntriesByPrincipalsAndResource_def entries_of_principals_def
    by (rule filter_cong) (auto simp: principals_some_without_public[OF False])
  with False show ?thesis by (simp add: getEffectivePermissions_fold)
qed

lemma public_store_eq:
  "public_store = [(''id1'', \<lparr>principalType = ''public'', principalId = Null,
      entry_id = ''id1'', principalModel = Undefined, resourceType = ''agent'',
      resourceId = ''a1'', permBits = 1, roleId = Str ''r1'', grantedBy = ''admin'',
      grantedAt = 5\<rparr>)]"
  by (simp add: public_store_def grantPermission_def map_values_def Let_def
      PrincipalType_USER_def PrincipalType_GROUP_def PrincipalType_ROLE_def)

text \<open>
  C1 as stated fails: for the principal list that holds user \<open>u1\<close> only, the PUBLIC
  entry of the resource is not part of the union.
\<close>
theorem C1_counterexample:
  "getEffectivePermissions [\<lparr>principalType = ''user'', principalId = Str ''u1''\<rparr>]
      ''agent'' ''a1'' public_store = 0
   \<and> claimed_effective_permissions [\<lparr>principalType = ''user'', principalId = Str ''u1''\<rparr>]
      ''agent'' ''a1'' public_store = 1"
  by (simp add: getEffectivePermissions_def findEntriesByPrincipalsAndResource_def
      principals_some_def claimed_effective_permissions_def bitwise_or_of_def
      entries_of_principals_or_public_def public_store_eq map_values_def Let_def
      PrincipalType_PUBLIC_def PrincipalType_USER_def PrincipalType_GROUP_def
      PrincipalType_ROLE_def js_or_def toInt32_def)

theorem C1_witness:
  "getEffectivePermissions [\<lparr>principalType = ''user'', principalId = Str ''u1''\<rparr>,
       \<lparr>principalType = ''public'', principalId = Undefined\<rparr>] ''agent'' ''a1'' public_store = 1
   \<and> getEffectivePermissions [\<lparr>principalType = ''user'', principalId = Str ''u1''\<rparr>]
       ''agent'' ''a1'' public_store = 0"
  using C1_effective_permissions[of "[\<lparr>principalType = ''user'', principalId = Str ''u1''\<rparr>,
       \<lparr>principalType = ''public'', principalId = Undefined\<rparr>]" "''agent''" "''a1''" public_store]
    C1_effective_permissions[of "[\<lparr>principalType = ''user'', principalId = Str ''u1''\<rparr>]"
       "''agent''" "''a1''" public_store]
  by (simp add: bitwise_or_of_def entries_of_principals_def
      entries_of_principals_or_public_def public_store_eq map_values_def Let_def
      PrincipalType_PUBLIC_def PrincipalType_USER_def PrincipalType_GROUP_def
      PrincipalType_ROLE_def js_or_def toInt32_def)

section \<open>Principals of a user\<close>

lemma dropWhile_all: "(\<forall>x\<in>set (dropWhile P xs). P x) \<longleftrightarrow> (\<forall>x\<in>set xs. P x)"
  by (induction xs) auto

lemma trim_empty_iff: "trim r = [] \<longleftrightarrow> (\<forall>c\<in>set r. js_whitespace c)"
proof -
  have "trim r = [] \<longleftrightarrow> dropWhile js_whitespace (rev (dropWhile js_whitespace r)) = []"
    by (simp add: trim_def)
  also have "\<dots> \<longleftrightarrow> (\<forall>c\<in>set (dropWhile js_whitespace r). js_whitespace c)"
    by (simp add: dropWhile_eq_Nil_conv)
  also have "\<dots> \<longleftrightarrow> (\<forall>c\<in>set r. js_whitespace c)"
    by (rule dropWhile_all)
  finally show ?thesis .
qed

lemma role_test: "(r \<noteq> [] \<and> trim r \<noteq> []) \<longleftrightarrow> non_blank (Str r)"
  by (auto simp: trim_empty_iff non_blank_def list_ex_iff)

lemma foldl_snoc_map: "foldl (\<lambda>ps g. ps @ [f g]) acc gs = acc @ map f gs"
  by (induction gs arbitrary: acc) simp_all

lemma getUserPrincipals_eq:
  "getUserPrincipals userId role groupStore =
     \<lparr>principalType = PrincipalType_USER, principalId = Str userId\<rparr> #
     (if non_blank role then [\<lparr>principalType = PrincipalType_ROLE, principalId = role\<rparr>] else []) @
     group_principals userId groupStore @
     [\<lparr>principalType = PrincipalType_PUBLIC, principalId = Undefined\<rparr>]"
proof (cases role)
  case (Str r)
  then show ?thesis
    using role_test[of r]
    by (simp add: getUserPrincipals_def getUserGroups_def findGroupsByMemberId_def
        group_principals_def foldl_snoc_map Let_def)
next
  case Undefined
  then show ?thesis
    by (simp add: getUserPrincipals_def getUserGroups_def findGroupsByMemberId_def
        group_principals_def foldl_snoc_map Let_def non_blank_def)
next
  case Null
  then show ?thesis
    by (simp add: getUserPrincipals_def getUserGroups_def findGroupsByMemberId_def
        group_principals_def foldl_snoc_map Let_def non_blank_def)
qed

text \<open>
  C7. For every user id, role and group store, \<open>getUserPrincipals\<close> returns the USER
  principal of the user, then the ROLE principal of the role if and only if the role is a
  string with a character that is not white space, then one GROUP principal for each group
  whose \<open>memberIds\<close> contain the user, then the PUBLIC principal: the first element is
  \<open>{USER, userId}\<close>, the last is \<open>{PUBLIC}\<close>.
\<close>
theorem C7_getUserPrincipals:
  "getUserPrincipals userId role groupStore =
     \<lparr>principalType = PrincipalType_USER, principalId = Str userId\<rparr> #
     (if non_blank role then [\<lparr>principalType = PrincipalType_ROLE, principalId = role\<rparr>] else []) @
     group_principals userId groupStore @
     [\<lparr>principalType = PrincipalType_PUBLIC, principalId = Undefined\<rparr>]
   \<and> hd (getUserPrincipals userId role groupStore)
       = \<lparr>principalType = PrincipalType_USER, principalId = Str userId\<rparr>
   \<and> last (getUserPrincipals userId role groupStore)
       = \<lparr>principalType = PrincipalType_PUBLIC, principalId = Undefined\<rparr>
   \<and> (list_ex (\<lambda>p. p = \<lparr>principalType = PrincipalType_ROLE, principalId = role\<rparr>)
         (getUserPrincipals userId role groupStore) \<longleftrightarrow> non_blank role)
   \<and> filter (\<lambda>p. principalType p = PrincipalType_GROUP) (getUserPrincipals userId role groupStore)
       = group_principals userId groupStore"
proof -
  have g: "filter (\<lambda>p. principalType p = PrincipalType_GROUP) (group_principals userId groupStore)
           = group_principals userId groupStore"
    by (simp add: group_principals_def filter_map comp_def)
  have n: "\<not> list_ex (\<lambda>p. p = \<lparr>principalType = PrincipalType_ROLE, principalId = role\<rparr>)
             (group_principals userId groupStore)"
    by (auto simp: group_principals_def list_ex_iff PrincipalType_ROLE_def PrincipalType_GROUP_def)
  show ?thesis
    unfolding getUserPrincipals_eq using g n
    by (simp add: PrincipalType_ROLE_def PrincipalType_GROUP_def PrincipalType_USER_def
        PrincipalType_PUBLIC_def)
qed

theorem C7_witness:
  "getUserPrincipals ''u1'' (Str ''admin'') example_groups =
     [\<lparr>principalType = ''user'', principalId = Str ''u1''\<rparr>,
      \<lparr>principalType = ''role'', principalId = Str ''admin''\<rparr>,
      \<lparr>principalType = ''group'', principalId = Str ''g1''\<rparr>,
      \<lparr>principalType = ''public'', principalId = Undefined\<rparr>]
   \<and> getUserPrincipals ''u3'' (Str '' '') example_groups =
     [\<lparr>principalType = ''user'', principalId = Str ''u3''\<rparr>,
      \<lparr>principalType = ''public'', principalId = Undefined\<rparr>]"
  using C7_getUserPrincipals[of "''u1''" "Str ''admin''" example_groups]
    C7_getUserPrincipals[of "''u3''" "Str '' ''" example_groups]
  by (simp add: non_blank_def group_principals_def example_groups_def map_values_def
      js_whitespace_def PrincipalType_ROLE_def PrincipalType_GROUP_def PrincipalType_USER_def
        PrincipalType_PUBLIC_def)

section \<open>Checking a permission\<close>

lemma seeded_agent_viewer:
  "findRoleByIdentifier AccessRoleIds_AGENT_VIEWER (seedDefaultRoles nanoid [])
     = Some \<lparr>role_id = nanoid 0, accessRoleId = AccessRoleIds_AGENT_VIEWER,
             role_resourceType = ResourceType_AGENT, role_permBits = 1\<rparr>"
  by (simp add: findRoleByIdentifier_def seedDefaultRoles_def defaultRoles_def map_get_def
      AccessRoleIds_AGENT_VIEWER_def AccessRoleIds_AGENT_EDITOR_def AccessRoleIds_AGENT_OWNER_def
      AccessRoleIds_PROMPTGROUP_VIEWER_def AccessRoleIds_PROMPTGROUP_EDITOR_def
      AccessRoleIds_PROMPTGROUP_OWNER_def AccessRoleIds_MCPSERVER_VIEWER_def
      AccessRoleIds_MCPSERVER_EDITOR_def AccessRoleIds_MCPSERVER_OWNER_def
      AccessRoleIds_REMOTE_AGENT_VIEWER_def AccessRoleIds_REMOTE_AGENT_EDITOR_def
      AccessRoleIds_REMOTE_AGENT_OWNER_def RoleBits_VIEWER_def)

lemma validate_agent: "validateResourceType ResourceType_AGENT = Inr ()"
  by (simp add: validateResourceType_def ResourceType_values_def)

lemma hasPermission_iff:
  "hasPermission P T R b s \<longleftrightarrow>
     (\<exists>e\<in>set (map_values s). resourceType e = T \<and> resourceId e = R \<and> principals_some P e \<and>
         js_and (permBits e) b = b)"
  by (auto simp: hasPermission_def findEntriesByPrincipalsAndResource_def list_ex_iff)

lemma map_set_pair_in: "(k, v) \<in> set (map_set k v s)"
  by (induction s) auto

lemma map_set_in: "v \<in> set (map_values (map_set k v s))"
  using map_set_pair_in[of k v s] by (force simp: map_values_def)

lemma principals_some_user:
  "principalType e = PrincipalType_USER \<Longrightarrow> principalId e = Str u \<Longrightarrow>
   principals_some (getUserPrincipals u role groupStore) e"
  by (simp add: getUserPrincipals_eq principals_some_def PrincipalType_USER_def
      PrincipalType_PUBLIC_def)

lemma checkPermission_valid:
  "0 < n \<Longrightarrow> PermissionService_checkPermission u role ResourceType_AGENT R (JNum n) g s
     = Inr (hasPermission (getUserPrincipals u role g) ResourceType_AGENT R n s)"
  by (simp add: PermissionService_checkPermission_def not_positive_number_def validate_agent
      number_of_def getUserPrincipals_eq Let_def)

lemma grant_into_fresh_resource:
  assumes "\<not> list_ex (\<lambda>e. resourceType e = T \<and> resourceId e = R) (map_values s)"
  shows "hasPermission P T R b (snd (grantPermission pT pI T R bits gBy rl newId now s))
         \<longleftrightarrow> principals_some P (fst (grantPermission pT pI T R bits gBy rl newId now s)) \<and>
             js_and bits b = b"
proof -
  from assms have none: "find (tuple_match pT pI T R) (map_values s) = None"
    by (auto simp: find_None_iff tuple_match_def list_ex_iff)
  let ?g = "grantPermission pT pI T R bits gBy rl newId now s"
  have s': "snd ?g = map_set newId (fst ?g) s"
    using none by (simp add: grantPermission_def Let_def)
  have res: "resourceType (fst ?g) = T" "resourceId (fst ?g) = R" "permBits (fst ?g) = bits"
    using none by (simp_all add: grantPermission_def Let_def)
  have sub: "set (map_values (snd ?g)) \<subseteq> insert (fst ?g) (set (map_values s))"
    unfolding s' by (rule map_set_values_subset)
  have mem: "fst ?g \<in> set (map_values (snd ?g))"
    unfolding s' by (rule map_set_in)
  show ?thesis
  proof
    assume "hasPermission P T R b (snd ?g)"
    then obtain e where e: "e \<in> set (map_values (snd ?g))" "resourceType e = T"
      "resourceId e = R" "principals_some P e" "js_and (permBits e) b = b"
      by (auto simp: hasPermission_iff)
    from e(1-3) sub assms have "e = fst ?g" by (auto simp: list_ex_iff)
    with e res show "principals_some P (fst ?g) \<and> js_and bits b = b" by simp
  next
    assume "principals_some P (fst ?g) \<and> js_and bits b = b"
    with mem res show "hasPermission P T R b (snd ?g)"
      unfolding hasPermission_iff by (intro bexI[of _ "fst ?g"]) simp_all
  qed
qed

lemma findEntries_explicit:
  "findEntriesByPrincipalsAndResource P T R s =
     (if list_ex (\<lambda>p. principalType p = PrincipalType_PUBLIC) P
      then entries_of_principals_or_public P T R s
      else entries_of_principals P T R s)"
proof (cases "list_ex (\<lambda>p. principalType p = PrincipalType_PUBLIC) P")
  case True
  have "findEntriesByPrincipalsAndResource P T R s = entries_of_principals_or_public P T R s"
    unfolding findEntriesByPrincipalsAndResource_def entries_of_principals_or_public_def
    by (rule filter_cong) (auto simp: principals_some_with_public[OF True])
  with True show ?thesis by simp
next
  case False
  have "findEntriesByPrincipalsAndResource P T R s = entries_of_principals P T R s"
    unfolding findEntriesByPrincipalsAndResource_def entries_of_principals_def
    by (rule filter_cong) (auto simp: principals_some_without_public[OF False])
  with False show ?thesis by simp
qed

lemma hasPermission_explicit:
  "hasPermission P T R b s \<longleftrightarrow>
     list_ex (\<lambda>e. js_and (permBits e) b = b)
       (if list_ex (\<lambda>p. principalType p = PrincipalType_PUBLIC) P
        then entries_of_principals_or_public P T R s
        else entries_of_principals P T R s)"
  unfolding hasPermission_def findEntries_explicit ..

text \<open>
  C6 (amended). \<open>hasPermission(principals, type, id, requiredBit)\<close> is true if and only if
  some stored entry of the resource satisfies \<open>(entry.permBits & requiredBit) ===
  requiredBit\<close>, among the entries whose \<open>(principalType, principalId)\<close> is that of an element
  of the principal list, together with the PUBLIC entries exactly when the list has an
  element of type PUBLIC. And on a store with no entry for agent \<open>a1\<close>, with the seeded
  default roles, granting \<open>AGENT_VIEWER\<close> to user \<open>u1\<close> on \<open>a1\<close> succeeds with
  \<open>permBits = 1\<close>, after which \<open>checkPermission\<close> is true for \<open>requiredPermission = 1\<close>
  and false for \<open>requiredPermission = 3\<close>.
\<close>
theorem C6_hasPermission:
  "(hasPermission P T R b s \<longleftrightarrow>
      list_ex (\<lambda>e. js_and (permBits e) b = b)
        (if list_ex (\<lambda>p. principalType p = PrincipalType_PUBLIC) P
         then entries_of_principals_or_public P T R s
         else entries_of_principals P T R s))
   \<and> (u1 \<noteq> [] \<and> a1 \<noteq> [] \<and>
        \<not> list_ex (\<lambda>e. resourceType e = ResourceType_AGENT \<and> resourceId e = a1) (map_values st)
      \<longrightarrow> (\<exists>entry st'.
             PermissionService_grantPermission PrincipalType_USER (Str u1) ResourceType_AGENT a1
               AccessRoleIds_AGENT_VIEWER gBy newId now (seedDefaultRoles nanoid []) st
               = Inr (entry, st')
             \<and> permBits entry = 1
             \<and> PermissionService_checkPermission u1 role ResourceType_AGENT a1 (JNum 1) groupStore st'
                 = Inr True
             \<and> PermissionService_checkPermission u1 role ResourceType_AGENT a1 (JNum 3) groupStore st'
                 = Inr False))"
proof (intro conjI impI)
  show "hasPermission P T R b s \<longleftrightarrow>
      list_ex (\<lambda>e. js_and (permBits e) b = b)
        (if list_ex (\<lambda>p. principalType p = PrincipalType_PUBLIC) P
         then entries_of_principals_or_public P T R s
         else entries_of_principals P T R s)"
    by (rule hasPermission_explicit)
next
  assume a: "u1 \<noteq> [] \<and> a1 \<noteq> [] \<and>
        \<not> list_ex (\<lambda>e. resourceType e = ResourceType_AGENT \<and> resourceId e = a1) (map_values st)"
  let ?g = "grantPermission PrincipalType_USER (Str u1) ResourceType_AGENT a1 1 gBy
              (Str (nanoid 0)) newId now st"
  have g: "PermissionService_grantPermission PrincipalType_USER (Str u1) ResourceType_AGENT a1
               AccessRoleIds_AGENT_VIEWER gBy newId now (seedDefaultRoles nanoid []) st
           = Inr (fst ?g, snd ?g)"
    using a by (simp add: PermissionService_grantPermission_def seeded_agent_viewer validate_agent
        PrincipalType_values_def PrincipalType_USER_def PrincipalType_PUBLIC_def
        PrincipalType_ROLE_def)
  from a have fresh: "\<not> list_ex (\<lambda>e. resourceType e = ResourceType_AGENT \<and> resourceId e = a1)
      (map_values st)" by simp
  then have none: "find (tuple_match PrincipalType_USER (Str u1) ResourceType_AGENT a1)
      (map_values st) = None"
    by (auto simp: find_None_iff tuple_match_def list_ex_iff)
  have fields: "principalType (fst ?g) = PrincipalType_USER" "principalId (fst ?g) = Str u1"
    using none by (simp_all add: grantPermission_def Let_def)
  have ps: "principals_some (getUserPrincipals u1 role groupStore) (fst ?g)"
    by (rule principals_some_user[OF fields])
  have m1: "js_and 1 1 = 1" and m3: "js_and 1 3 \<noteq> 3"
    by (simp_all add: js_and_def toInt32_def)
  have c1: "PermissionService_checkPermission u1 role ResourceType_AGENT a1 (JNum 1) groupStore
              (snd ?g) = Inr True"
    using grant_into_fresh_resource[OF fresh, of "getUserPrincipals u1 role groupStore" 1] ps m1
    by (simp add: checkPermission_valid)
  have c3: "PermissionService_checkPermission u1 role ResourceType_AGENT a1 (JNum 3) groupStore
              (snd ?g) = Inr False"
    using grant_into_fresh_resource[OF fresh, of "getUserPrincipals u1 role groupStore" 3] m3
    by (simp add: checkPermission_valid)
  show "\<exists>entry st'.
             PermissionService_grantPermission PrincipalType_USER (Str u1) ResourceType_AGENT a1
               AccessRoleIds_AGENT_VIEWER gBy newId now (seedDefaultRoles nanoid []) st
               = Inr (entry, st')
             \<and> permBits entry = 1
             \<and> PermissionService_checkPermission u1 role ResourceType_AGENT a1 (JNum 1) groupStore st'
                 = Inr True
             \<and> PermissionService_checkPermission u1 role ResourceType_AGENT a1 (JNum 3) groupStore st'
                 = Inr False"
    using g c1 c3 grant_permBits by blast
qed

lemma two_entry_store_eq:
  "two_entry_store =
     [(''id1'', \<lparr>principalType = ''user'', principalId = Str ''u1'', entry_id = ''id1'',
         principalModel = Str ''User'', resourceType = ''agent'', resourceId = ''a1'',
         permBits = 1, roleId = Undefined, grantedBy = ''admin'', grantedAt = 1\<rparr>),
      (''id2'', \<lparr>principalType = ''group'', principalId = Str ''g1'', entry_id = ''id2'',
         principalModel = Str ''Group'', resourceType = ''agent'', resourceId = ''a1'',
         permBits = 2, roleId = Undefined, grantedBy = ''admin'', grantedAt = 2\<rparr>)]"
  by (simp add: two_entry_store_def grantPermission_def map_values_def tuple_match_def Let_def
      PrincipalType_USER_def PrincipalType_GROUP_def PrincipalType_ROLE_def
      PrincipalModel_USER_def PrincipalModel_GROUP_def)

text \<open>
  C6 as stated fails when the matching entries are those the specification names: for the
  principal list that holds user \<open>u1\<close> only, the PUBLIC entry that holds VIEW does not
  count, and \<open>hasPermission\<close> is false.
\<close>
theorem C6_counterexample:
  "hasPermission [\<lparr>principalType = ''user'', principalId = Str ''u1''\<rparr>] ''agent'' ''a1'' 1
     public_store = False
   \<and> claimed_has_permission [\<lparr>principalType = ''user'', principalId = Str ''u1''\<rparr>] ''agent'' ''a1'' 1
     public_store = True"
  by (simp add: hasPermission_def findEntriesByPrincipalsAndResource_def principals_some_def
      claimed_has_permission_def entries_of_principals_or_public_def public_store_eq
      map_values_def PrincipalType_PUBLIC_def js_and_def toInt32_def)

theorem C6_witness:
  "hasPermission [\<lparr>principalType = ''user'', principalId = Str ''u1''\<rparr>,
                  \<lparr>principalType = ''public'', principalId = Undefined\<rparr>]
        ''agent'' ''a1'' 1 public_store
   \<and> \<not> hasPermission [\<lparr>principalType = ''user'', principalId = Str ''u1''\<rparr>]
        ''agent'' ''a1'' 1 public_store
   \<and> \<not> hasPermission [\<lparr>principalType = ''user'', principalId = Str ''u1''\<rparr>,
                    \<lparr>principalType = ''group'', principalId = Str ''g1''\<rparr>]
        ''agent'' ''a1'' 3 two_entry_store
   \<and> hasPermission [\<lparr>principalType = ''user'', principalId = Str ''u1''\<rparr>,
                    \<lparr>principalType = ''group'', principalId = Str ''g1''\<rparr>]
        ''agent'' ''a1'' 2 two_entry_store
   \<and> (\<exists>entry st'.
         PermissionService_grantPermission PrincipalType_USER (Str ''u1'') ResourceType_AGENT ''a1''
           AccessRoleIds_AGENT_VIEWER ''admin'' ''id1'' 1 (seedDefaultRoles (\<lambda>n. ''role'') []) []
           = Inr (entry, st')
         \<and> permBits entry = 1
         \<and> PermissionService_checkPermission ''u1'' Undefined ResourceType_AGENT ''a1'' (JNum 1) [] st'
             = Inr True
         \<and> PermissionService_checkPermission ''u1'' Undefined ResourceType_AGENT ''a1'' (JNum 3) [] st'
             = Inr False)"
proof -
  have m: "js_and 1 3 \<noteq> 3" "js_and 2 3 \<noteq> 3" "js_and 1 1 = 1" "js_and 2 2 = 2" "js_and 1 2 \<noteq> 2"
    by (simp_all add: js_and_def toInt32_def)
  have h: "''u1'' \<noteq> [] \<and> ''a1'' \<noteq> [] \<and>
        \<not> list_ex (\<lambda>e. resourceType e = ResourceType_AGENT \<and> resourceId e = ''a1'') (map_values [])"
    by (simp add: map_values_def)
  from C6_hasPermission[of "[\<lparr>principalType = ''user'', principalId = Str ''u1''\<rparr>,
                  \<lparr>principalType = ''public'', principalId = Undefined\<rparr>]"
        "''agent''" "''a1''" 1 public_store] m
  have 1: "hasPermission [\<lparr>principalType = ''user'', principalId = Str ''u1''\<rparr>,
                  \<lparr>principalType = ''public'', principalId = Undefined\<rparr>]
        ''agent'' ''a1'' 1 public_store"
    by (simp add: entries_of_principals_or_public_def public_store_eq map_values_def
        PrincipalType_PUBLIC_def)
  from C6_hasPermission[of "[\<lparr>principalType = ''user'', principalId = Str ''u1''\<rparr>]"
        "''agent''" "''a1''" 1 public_store] m
  have 2: "\<not> hasPermission [\<lparr>principalType = ''user'', principalId = Str ''u1''\<rparr>]
        ''agent'' ''a1'' 1 public_store"
    by (simp add: entries_of_principals_def public_store_eq map_values_def
        PrincipalType_PUBLIC_def)
  note c = C6_hasPermission[of "[\<lparr>principalType = ''user'', principalId = Str ''u1''\<rparr>,
                    \<lparr>principalType = ''group'', principalId = Str ''g1''\<rparr>]"
        "''agent''" "''a1''" _ two_entry_store "''u1''" "''a1''" "[]" "''admin''" "''id1''" 1
        "\<lambda>n. ''role''" Undefined "[]"]
  from c[of 3] m have 3: "\<not> hasPermission [\<lparr>principalType = ''user'', principalId = Str ''u1''\<rparr>,
                    \<lparr>principalType = ''group'', principalId = Str ''g1''\<rparr>]
        ''agent'' ''a1'' 3 two_entry_store"
    by (simp add: entries_of_principals_def two_entry_store_eq map_values_def
        PrincipalType_PUBLIC_def)
  from c[of 2] m have 4: "hasPermission [\<lparr>principalType = ''user'', principalId = Str ''u1''\<rparr>,
                    \<lparr>principalType = ''group'', principalId = Str ''g1''\<rparr>]
        ''agent'' ''a1'' 2 two_entry_store"
    by (simp add: entries_of_principals_def two_entry_store_eq map_values_def
        PrincipalType_PUBLIC_def)
  from c[of 3] h have 5: "\<exists>entry st'.
         PermissionService_grantPermission PrincipalType_USER (Str ''u1'') ResourceType_AGENT ''a1''
           AccessRoleIds_AGENT_VIEWER ''admin'' ''id1'' 1 (seedDefaultRoles (\<lambda>n. ''role'') []) []
           = Inr (entry, st')
         \<and> permBits entry = 1
         \<and> PermissionService_checkPermission ''u1'' Undefined ResourceType_AGENT ''a1'' (JNum 1) [] st'
             = Inr True
         \<and> PermissionService_checkPermission ''u1'' Undefined ResourceType_AGENT ''a1'' (JNum 3) [] st'
             = Inr False"
    by blast
  from 1 2 3 4 5 show ?thesis by simp
qed

section \<open>Validation and errors\<close>

lemma marker_check:
  "js_includes ''requiredPermission must be a positive number'' ''requiredPermission must be''"
  by simp

lemma marker_find:
  "js_includes ''requiredPermissions must be a positive number'' ''requiredPermissions must be''"
  by simp

lemma checkPermission_throws:
  "not_positive_number v \<Longrightarrow>
   PermissionService_checkPermission u role T R v g s
     = Inl (Error ''requiredPermission must be a positive number'')"
  unfolding PermissionService_checkPermission_def using marker_check by simp

lemma findAccessibleResources_throws:
  "not_positive_number v \<Longrightarrow>
   PermissionService_findAccessibleResources u role T v g s
     = Inl (Error ''requiredPermissions must be a positive number'')"
  unfolding PermissionService_findAccessibleResources_def using marker_find by simp

lemma validate_unknown:
  "T \<notin> set ResourceType_values \<Longrightarrow> \<exists>m. validateResourceType T = Inl (Error m)"
  by (simp add: validateResourceType_def)

lemma grantPermission_throws:
  assumes "pT \<notin> set PrincipalType_values \<or> (pT \<noteq> PrincipalType_PUBLIC \<and> \<not> truthy pI) \<or>
           T \<notin> set ResourceType_values \<or> findRoleByIdentifier rid roles = None \<or>
           (\<exists>role. findRoleByIdentifier rid roles = Some role \<and> role_resourceType role \<noteq> T)"
  shows "\<exists>e. PermissionService_grantPermission pT pI T R rid gBy newId now roles s = Inl e"
  using assms unfolding PermissionService_grantPermission_def validateResourceType_def
  by (auto split: option.splits)

lemma is_prefix_skip: "c \<notin> set m \<Longrightarrow> is_prefix m (zs @ c # ys) = is_prefix m zs"
proof (induction zs arbitrary: m)
  case Nil
  then show ?case by (cases m) auto
next
  case (Cons z zs)
  then show ?case by (cases m) auto
qed

lemma includes_split:
  "c \<notin> set m \<Longrightarrow> js_includes (xs @ c # ys) m \<longleftrightarrow> js_includes xs m \<or> js_includes ys m"
proof (induction xs)
  case Nil
  have "is_prefix m (c # ys) = is_prefix m []"
    using is_prefix_skip[OF Nil, of "[]" ys] by simp
  also have "\<dots> = (m = [])" by (cases m) simp_all
  finally show ?case by auto
next
  case (Cons x xs)
  have "is_prefix m (x # xs @ c # ys) = is_prefix m (x # xs)"
    using is_prefix_skip[OF Cons.prems, of "x # xs" ys] by simp
  with Cons show ?case by auto
qed

lemma includes_after_space:
  "m \<noteq> [] \<Longrightarrow> hd m \<noteq> c \<Longrightarrow> js_includes (c # xs) m = js_includes xs m"
  by (cases m) auto

lemma invalid_message_includes:
  assumes "CHR '':'' \<notin> set m" and "CHR ''.'' \<notin> set m" and "m \<noteq> []" and "hd m \<noteq> CHR '' ''"
    and "\<not> js_includes ''Invalid resourceType'' m"
    and "\<not> js_includes '' Valid types: agent, promptGroup, mcpServer, remoteAgent'' m"
  shows "js_includes (''Invalid resourceType: '' @ T @
            ''. Valid types: agent, promptGroup, mcpServer, remoteAgent'') m
         \<longleftrightarrow> js_includes T m"
proof -
  have e1: "''Invalid resourceType: '' @ T @
            ''. Valid types: agent, promptGroup, mcpServer, remoteAgent''
        = ''Invalid resourceType'' @ CHR '':'' #
            (CHR '' '' # T @ ''. Valid types: agent, promptGroup, mcpServer, remoteAgent'')"
    by simp
  have e2: "CHR '' '' # T @ ''. Valid types: agent, promptGroup, mcpServer, remoteAgent''
        = (CHR '' '' # T) @ CHR ''.'' #
            '' Valid types: agent, promptGroup, mcpServer, remoteAgent''"
    by simp
  have "js_includes (''Invalid resourceType: '' @ T @
            ''. Valid types: agent, promptGroup, mcpServer, remoteAgent'') m
        \<longleftrightarrow> js_includes (CHR '' '' # T @
            ''. Valid types: agent, promptGroup, mcpServer, remoteAgent'') m"
    unfolding e1 using includes_split[OF assms(1)] assms(5) by blast
  also have "\<dots> \<longleftrightarrow> js_includes (CHR '' '' # T) m"
    unfolding e2 using includes_split[OF assms(2)] assms(6) by blast
  also have "\<dots> \<longleftrightarrow> js_includes T m"
    by (rule includes_after_space[OF assms(3,4)])
  finally show ?thesis .
qed

lemma validate_unknown_message:
  "T \<notin> set ResourceType_values \<Longrightarrow>
   validateResourceType T = Inl (Error (''Invalid resourceType: '' @ T @
      ''. Valid types: agent, promptGroup, mcpServer, remoteAgent''))"
  by (simp add: validateResourceType_def ResourceType_values_def ResourceType_AGENT_def
      ResourceType_PROMPTGROUP_def ResourceType_MCPSERVER_def ResourceType_REMOTE_AGENT_def)

lemma invalid_includes_check:
  "js_includes (''Invalid resourceType: '' @ T @
      ''. Valid types: agent, promptGroup, mcpServer, remoteAgent'') ''requiredPermission must be''
   \<longleftrightarrow> js_includes T ''requiredPermission must be''"
  by (rule invalid_message_includes) simp_all

lemma invalid_includes_find:
  "js_includes (''Invalid resourceType: '' @ T @
      ''. Valid types: agent, promptGroup, mcpServer, remoteAgent'') ''requiredPermissions must be''
   \<longleftrightarrow> js_includes T ''requiredPermissions must be''"
  by (rule invalid_message_includes) simp_all

lemma checkPermission_unknown_type:
  assumes "\<not> not_positive_number v" and "T \<notin> set ResourceType_values"
  shows "PermissionService_checkPermission u role T R v g s =
     (if js_includes T ''requiredPermission must be''
      then Inl (Error (''Invalid resourceType: '' @ T @
             ''. Valid types: agent, promptGroup, mcpServer, remoteAgent''))
      else Inr False)"
  using assms invalid_includes_check[of T]
  by (simp add: PermissionService_checkPermission_def validate_unknown_message)

lemma findAccessibleResources_unknown_type:
  assumes "\<not> not_positive_number v" and "T \<notin> set ResourceType_values"
  shows "PermissionService_findAccessibleResources u role T v g s =
     (if js_includes T ''requiredPermissions must be''
      then Inl (Error (''Invalid resourceType: '' @ T @
             ''. Valid types: agent, promptGroup, mcpServer, remoteAgent''))
      else Inr [])"
  using assms invalid_includes_find[of T]
  by (simp add: PermissionService_findAccessibleResources_def validate_unknown_message)

text \<open>
  C4 (amended). \<open>checkPermission\<close> and \<open>findAccessibleResources\<close> throw the error of a
  \<open>requiredPermission(s)\<close> that is not a number or is less than 1. \<open>grantPermission\<close> throws
  every validation error: an unrecognised principal type, a missing \<open>principalId\<close> for a
  principal that is not PUBLIC, an unknown \<open>resourceType\<close>, an unknown \<open>accessRoleId\<close>, a role
  of another resource type. An unknown \<open>resourceType\<close> is not thrown by
  \<open>getEffectivePermissions\<close>, which returns 0; with a valid mask, \<open>checkPermission\<close>
  returns \<open>false\<close> and \<open>findAccessibleResources\<close> returns \<open>[]\<close> for it, except when the
  resource type itself contains the phrase \<open>'requiredPermission must be'\<close>
  (\<open>'requiredPermissions must be'\<close> for \<open>findAccessibleResources\<close>): the message of the
  error quotes the resource type, and the error is then thrown.
\<close>
theorem C4_validation_errors:
  "(not_positive_number v \<longrightarrow>
      PermissionService_checkPermission u role T R v g s
        = Inl (Error ''requiredPermission must be a positive number'')
      \<and> PermissionService_findAccessibleResources u role T v g s
        = Inl (Error ''requiredPermissions must be a positive number''))
   \<and> (pT \<notin> set PrincipalType_values \<or> (pT \<noteq> PrincipalType_PUBLIC \<and> \<not> truthy pI) \<or>
       T \<notin> set ResourceType_values \<or> findRoleByIdentifier rid roles = None \<or>
       (\<exists>role. findRoleByIdentifier rid roles = Some role \<and> role_resourceType role \<noteq> T)
      \<longrightarrow> (\<exists>e. PermissionService_grantPermission pT pI T R rid gBy newId now roles s = Inl e))
   \<and> (T \<notin> set ResourceType_values \<longrightarrow>
        PermissionService_getEffectivePermissions u role T R g s = Inr 0)
   \<and> (\<not> not_positive_number v \<and> T \<notin> set ResourceType_values \<longrightarrow>
        PermissionService_checkPermission u role T R v g s =
          (if js_includes T ''requiredPermission must be''
           then Inl (Error (''Invalid resourceType: '' @ T @
                  ''. Valid types: agent, promptGroup, mcpServer, remoteAgent''))
           else Inr False)
        \<and> PermissionService_findAccessibleResources u role T v g s =
          (if js_includes T ''requiredPermissions must be''
           then Inl (Error (''Invalid resourceType: '' @ T @
                  ''. Valid types: agent, promptGroup, mcpServer, remoteAgent''))
           else Inr []))"
proof (intro conjI impI)
  assume "not_positive_number v"
  then show "PermissionService_checkPermission u role T R v g s
        = Inl (Error ''requiredPermission must be a positive number'')"
    and "PermissionService_findAccessibleResources u role T v g s
        = Inl (Error ''requiredPermissions must be a positive number'')"
    by (rule checkPermission_throws, rule findAccessibleResources_throws)
next
  assume "pT \<notin> set PrincipalType_values \<or> (pT \<noteq> PrincipalType_PUBLIC \<and> \<not> truthy pI) \<or>
       T \<notin> set ResourceType_values \<or> findRoleByIdentifier rid roles = None \<or>
       (\<exists>role. findRoleByIdentifier rid roles = Some role \<and> role_resourceType role \<noteq> T)"
  then show "\<exists>e. PermissionService_grantPermission pT pI T R rid gBy newId now roles s = Inl e"
    by (rule grantPermission_throws)
next
  assume "T \<notin> set ResourceType_values"
  then show "PermissionService_getEffectivePermissions u role T R g s = Inr 0"
    by (simp add: PermissionService_getEffectivePermissions_def validateResourceType_def)
next
  assume a: "\<not> not_positive_number v \<and> T \<notin> set ResourceType_values"
  then show "PermissionService_checkPermission u role T R v g s =
          (if js_includes T ''requiredPermission must be''
           then Inl (Error (''Invalid resourceType: '' @ T @
                  ''. Valid types: agent, promptGroup, mcpServer, remoteAgent''))
           else Inr False)"
    by (intro checkPermission_unknown_type) simp_all
  from a show "PermissionService_findAccessibleResources u role T v g s =
          (if js_includes T ''requiredPermissions must be''
           then Inl (Error (''Invalid resourceType: '' @ T @
                  ''. Valid types: agent, promptGroup, mcpServer, remoteAgent''))
           else Inr [])"
    by (intro findAccessibleResources_unknown_type) simp_all
qed

lemma validate_invalid:
  "validateResourceType ''invalid''
     = Inl (Error ''Invalid resourceType: invalid. Valid types: agent, promptGroup, mcpServer, remoteAgent'')"
  by (simp add: validateResourceType_def ResourceType_values_def ResourceType_AGENT_def
      ResourceType_PROMPTGROUP_def ResourceType_MCPSERVER_def ResourceType_REMOTE_AGENT_def)

lemma invalid_message_check:
  "\<not> js_includes ''Invalid resourceType: invalid. Valid types: agent, promptGroup, mcpServer, remoteAgent''
       ''requiredPermission must be''"
  by simp

lemma invalid_message_find:
  "\<not> js_includes ''Invalid resourceType: invalid. Valid types: agent, promptGroup, mcpServer, remoteAgent''
       ''requiredPermissions must be''"
  by simp

text \<open>
  C4 as stated fails: with the unknown resource type \<open>'invalid'\<close>, the three query
  operations return \<open>false\<close>, \<open>0\<close> and \<open>[]\<close> instead of throwing.
\<close>
theorem C4_counterexample:
  "PermissionService_checkPermission ''u1'' Undefined ''invalid'' ''a1'' (JNum 1) [] example_store
     = Inr False
   \<and> PermissionService_getEffectivePermissions ''u1'' Undefined ''invalid'' ''a1'' [] example_store
     = Inr 0
   \<and> PermissionService_findAccessibleResources ''u1'' Undefined ''invalid'' (JNum 1) [] example_store
     = Inr []"
  using invalid_message_check invalid_message_find
  by (simp add: PermissionService_checkPermission_def PermissionService_getEffectivePermissions_def
      PermissionService_findAccessibleResources_def validate_invalid not_positive_number_def)

theorem C4_witness:
  "PermissionService_checkPermission ''u1'' Undefined ''agent'' ''a1'' (JNum 0) [] example_store
     = Inl (Error ''requiredPermission must be a positive number'')
   \<and> PermissionService_findAccessibleResources ''u1'' Undefined ''agent'' (JStr ''1'') [] example_store
     = Inl (Error ''requiredPermissions must be a positive number'')
   \<and> (\<exists>e. PermissionService_grantPermission ''user'' Null ''agent'' ''a1'' ''agent_viewer'' ''admin''
          ''id9'' 1 (seedDefaultRoles (\<lambda>n. ''role'') []) example_store = Inl e)
   \<and> PermissionService_getEffectivePermissions ''u1'' Undefined ''invalid'' ''a1'' [] example_store
     = Inr 0
   \<and> PermissionService_checkPermission ''u1'' Undefined ''invalid'' ''a1'' (JNum 1) [] example_store
     = Inr False
   \<and> PermissionService_findAccessibleResources ''u1'' Undefined ''invalid'' (JNum 1) [] example_store
     = Inr []
   \<and> PermissionService_checkPermission ''u1'' Undefined ''requiredPermission must be'' ''a1''
        (JNum 1) [] example_store
     = Inl (Error ''Invalid resourceType: requiredPermission must be. Valid types: agent, promptGroup, mcpServer, remoteAgent'')"
proof -
  have n0: "not_positive_number (JNum 0)" and ns: "not_positive_number (JStr ''1'')"
    and p1: "\<not> not_positive_number (JNum 1)"
    by (simp_all add: not_positive_number_def)
  have u: "''invalid'' \<notin> set ResourceType_values"
    and u': "''requiredPermission must be'' \<notin> set ResourceType_values"
    by (simp_all add: ResourceType_values_def ResourceType_AGENT_def
      ResourceType_PROMPTGROUP_def ResourceType_MCPSERVER_def ResourceType_REMOTE_AGENT_def)
  have g: "''user'' \<noteq> PrincipalType_PUBLIC \<and> \<not> truthy Null"
    by (simp add: PrincipalType_PUBLIC_def)
  have i: "\<not> js_includes ''invalid'' ''requiredPermission must be''"
    "\<not> js_includes ''invalid'' ''requiredPermissions must be''"
    "js_includes ''requiredPermission must be'' ''requiredPermission must be''"
    by simp_all
  from C4_validation_errors[of "JNum 0" "''u1''" Undefined "''agent''" "''a1''" "[]" example_store]
    n0
  have 1: "PermissionService_checkPermission ''u1'' Undefined ''agent'' ''a1'' (JNum 0) [] example_store
     = Inl (Error ''requiredPermission must be a positive number'')" by simp
  from C4_validation_errors[of "JStr ''1''" "''u1''" Undefined "''agent''" "''a1''" "[]" example_store]
    ns
  have 2: "PermissionService_findAccessibleResources ''u1'' Undefined ''agent'' (JStr ''1'') []
     example_store = Inl (Error ''requiredPermissions must be a positive number'')" by simp
  from C4_validation_errors[of "JNum 0" "''u1''" Undefined "''agent''" "''a1''" "[]" example_store
      "''user''" Null "''agent_viewer''" "seedDefaultRoles (\<lambda>n. ''role'') []" "''admin''" "''id9''" 1]
    g
  have 3: "\<exists>e. PermissionService_grantPermission ''user'' Null ''agent'' ''a1'' ''agent_viewer'' ''admin''
          ''id9'' 1 (seedDefaultRoles (\<lambda>n. ''role'') []) example_store = Inl e" by blast
  from C4_validation_errors[of "JNum 1" "''u1''" Undefined "''invalid''" "''a1''" "[]" example_store]
    u p1 i(1,2)
  have 4: "PermissionService_getEffectivePermissions ''u1'' Undefined ''invalid'' ''a1'' [] example_store
     = Inr 0"
    and 5: "PermissionService_checkPermission ''u1'' Undefined ''invalid'' ''a1'' (JNum 1) []
     example_store = Inr False"
    and 6: "PermissionService_findAccessibleResources ''u1'' Undefined ''invalid'' (JNum 1) []
     example_store = Inr []" by simp_all
  from C4_validation_errors[of "JNum 1" "''u1''" Undefined "''requiredPermission must be''"
      "''a1''" "[]" example_store] u' p1 i(3)
  have 7: "PermissionService_checkPermission ''u1'' Undefined ''requiredPermission must be'' ''a1''
        (JNum 1) [] example_store
     = Inl (Error ''Invalid resourceType: requiredPermission must be. Valid types: agent, promptGroup, mcpServer, remoteAgent'')"
    by simp
  from 1 2 3 4 5 6 7 show ?thesis by simp
qed

section \<open>Empty principal lists and invalid masks\<close>

text \<open>
  C5 (amended). Each of the five query operations of the ACL entry methods, given an empty
  principal list, returns the negative result (\<open>[]\<close>, \<open>false\<close>, \<open>0\<close>, the empty map, \<open>[]\<close>);
  none of them can throw. The check of the mask is made by the operations of the permission
  service: \<open>checkPermission\<close> and \<open>findAccessibleResources\<close> throw for a
  \<open>requiredPermission(s)\<close> that is not a number or is less than 1.
\<close>
theorem C5_empty_principals_and_masks:
  "findEntriesByPrincipalsAndResource [] T R s = []
   \<and> hasPermission [] T R b s = False
   \<and> getEffectivePermissions [] T R s = 0
   \<and> getEffectivePermissionsForResources [] T ids s = []
   \<and> findAccessibleResources [] T b s = []
   \<and> (not_positive_number v \<longrightarrow>
        PermissionService_checkPermission u role T R v g s
          = Inl (Error ''requiredPermission must be a positive number'')
        \<and> PermissionService_findAccessibleResources u role T v g s
          = Inl (Error ''requiredPermissions must be a positive number''))"
proof -
  have e: "findEntriesByPrincipalsAndResource [] T R s = []"
    by (simp add: findEntriesByPrincipalsAndResource_def principals_some_def)
  have r: "getEffectivePermissionsForResources [] T ids s = []"
    by (simp add: getEffectivePermissionsForResources_def principals_some_def)
  have a: "findAccessibleResources [] T b s = []"
    by (simp add: findAccessibleResources_def principals_some_def)
  show ?thesis
    using e r a checkPermission_throws[of v u role T R g s]
      findAccessibleResources_throws[of v u role T g s]
    by (simp add: hasPermission_def getEffectivePermissions_def)
qed

text \<open>
  C5 as stated fails: for the mask 0 the operations of the ACL entry methods return a
  result, here \<open>true\<close> and a list with agent \<open>a1\<close>.
\<close>
theorem C5_counterexample:
  "hasPermission [\<lparr>principalType = ''user'', principalId = Str ''u1''\<rparr>] ''agent'' ''a1'' 0
     example_store = True
   \<and> findAccessibleResources [\<lparr>principalType = ''user'', principalId = Str ''u1''\<rparr>] ''agent'' 0
     example_store = [''a1'']"
  by (simp add: hasPermission_def findAccessibleResources_def
      findEntriesByPrincipalsAndResource_def principals_some_def example_store_def
      map_values_def PrincipalType_PUBLIC_def js_and_def toInt32_def set_add_def)

theorem C5_witness:
  "hasPermission [] ''agent'' ''a1'' 1 example_store = False
   \<and> getEffectivePermissions [] ''agent'' ''a1'' example_store = 0
   \<and> PermissionService_checkPermission ''u1'' Undefined ''agent'' ''a1'' (JNum (- 1)) [] example_store
       = Inl (Error ''requiredPermission must be a positive number'')"
proof -
  have n: "not_positive_number (JNum (- 1))" by (simp add: not_positive_number_def)
  from C5_empty_principals_and_masks[of "''agent''" "''a1''" example_store 1 "[]" "JNum (- 1)"
      "''u1''" Undefined "[]"] n
  show ?thesis by simp
qed

section \<open>Publicly accessible resources\<close>

lemma public_editor_store_eq:
  "public_editor_store = [(''id1'', \<lparr>principalType = ''public'', principalId = Null,
      entry_id = ''id1'', principalModel = Undefined, resourceType = ''agent'',
      resourceId = ''a1'', permBits = 3, roleId = Str ''r2'', grantedBy = ''admin'',
      grantedAt = 5\<rparr>)]"
  by (simp add: public_editor_store_def grantPermission_def map_values_def Let_def
      PrincipalType_USER_def PrincipalType_GROUP_def PrincipalType_ROLE_def)

lemma findPubliclyAccessibleResources_exact:
  assumes "T \<in> set ResourceType_values" and "1 \<le> n"
  shows "PermissionService_findPubliclyAccessibleResources T (JNum n) s =
     Inr (foldl (\<lambda>ids e. set_add (resourceId e) ids) []
            (filter (\<lambda>e. principalType e = PrincipalType_PUBLIC \<and> resourceType e = T \<and>
                          permBits e = n) (map_values s)))"
proof -
  have "AclEntry_find [(''principalType'', JStr PrincipalType_PUBLIC), (''resourceType'', JStr T),
          (''permBits'', JNum n)] s
        = filter (\<lambda>e. principalType e = PrincipalType_PUBLIC \<and> resourceType e = T \<and>
                          permBits e = n) (map_values s)"
    unfolding AclEntry_find_def findAclEntries_def
    by (rule filter_cong) (simp_all add: entry_field_def)
  with assms show ?thesis
    by (simp add: PermissionService_findPubliclyAccessibleResources_def not_positive_number_def
        validateResourceType_def)
qed

text \<open>
  C2. The code tests \<open>permBits\<close> for equality with the mask. After a public grant of
  VIEW|EDIT (3) on agent \<open>a1\<close>, \<open>findPubliclyAccessibleResources\<close> for the mask VIEW (1)
  returns the empty list, although the entry holds the requested bit: the list of the claim
  has \<open>a1\<close>, and \<open>hasPublicPermission\<close> for the same resource and mask is true.
\<close>
theorem C2_exact_match_only:
  "PermissionService_findPubliclyAccessibleResources ''agent'' (JNum 1) public_editor_store = Inr []
   \<and> claimed_publicly_accessible ''agent'' 1 public_editor_store = [''a1'']
   \<and> PermissionService_hasPublicPermission ''agent'' ''a1'' (JNum 1) public_editor_store = Inr True"
proof -
  have v: "''agent'' \<in> set ResourceType_values"
    by (simp add: ResourceType_values_def ResourceType_AGENT_def)
  have m: "js_and 3 1 = 1" by (simp add: js_and_def toInt32_def)
  have 1: "PermissionService_findPubliclyAccessibleResources ''agent'' (JNum 1) public_editor_store
           = Inr []"
    by (simp add: findPubliclyAccessibleResources_exact[OF v] public_editor_store_eq map_values_def)
  have 2: "claimed_publicly_accessible ''agent'' 1 public_editor_store = [''a1'']"
    using m by (simp add: claimed_publicly_accessible_def public_editor_store_eq map_values_def
        PrincipalType_PUBLIC_def set_add_def)
  have 3: "PermissionService_hasPublicPermission ''agent'' ''a1'' (JNum 1) public_editor_store
           = Inr True"
    using v m by (simp add: PermissionService_hasPublicPermission_def not_positive_number_def
        validateResourceType_def number_of_def findEntriesByPrincipalsAndResource_def
        principals_some_def public_editor_store_eq map_values_def PrincipalType_PUBLIC_def)
  from 1 2 3 show ?thesis by simp
qed

section \<open>Bulk updates\<close>

lemma AccessRole_find_object: "AccessRole_find (ArgObject flt) roles = []"
  by (simp add: AccessRole_find_def findRolesByResourceType_def)

lemma bulk_grant_all_errors:
  "\<exists>errs. foldl (bulk_grant_step T R gBy [] nanoid clock) (res, s, n) ps
            = (res\<lparr>errors := errors res @ errs\<rparr>, s, n) \<and> length errs = length ps"
proof (induction ps arbitrary: res)
  case Nil
  show ?case by (rule exI[of _ "[]"]) simp
next
  case (Cons p ps)
  obtain msg where step: "bulk_grant_step T R gBy [] nanoid clock (res, s, n) p
      = (res\<lparr>errors := errors res @ [(p, msg)]\<rparr>, s, n)"
    by (cases "truthy (p_accessRoleId p)") (simp_all add: bulk_grant_step_def map_get_def Let_def)
  from Cons.IH[of "res\<lparr>errors := errors res @ [(p, msg)]\<rparr>"]
  obtain errs where "foldl (bulk_grant_step T R gBy [] nanoid clock)
        (res\<lparr>errors := errors res @ [(p, msg)]\<rparr>, s, n) ps
      = (res\<lparr>errors := errors res @ [(p, msg)] @ errs\<rparr>, s, n)" "length errs = length ps"
    by auto
  with step show ?case
    by (intro exI[of _ "(p, msg) # errs"]) simp
qed

lemma bulk_never_grants:
  assumes "R \<noteq> []"
  shows "\<exists>res s'. PermissionService_bulkUpdateResourcePermissions T R ps [] gBy nanoid clock roles s
            = Inr (res, s') \<and> granted res = [] \<and> length (errors res) = length ps \<and> s' = s"
proof -
  from bulk_grant_all_errors[of T R gBy nanoid clock
      "\<lparr>granted = [], updated = [], revoked = [], errors = []\<rparr>" s 0 ps]
  obtain errs where "foldl (bulk_grant_step T R gBy [] nanoid clock)
      (\<lparr>granted = [], updated = [], revoked = [], errors = []\<rparr>, s, 0) ps
      = (\<lparr>granted = [], updated = [], revoked = [], errors = errs\<rparr>, s, 0)"
    "length errs = length ps" by auto
  with assms show ?thesis
    by (simp add: PermissionService_bulkUpdateResourcePermissions_def AccessRole_find_object
        Let_def)
qed

lemma seeded_agent_roles:
  "map accessRoleId (findRolesByResourceType (ArgString ResourceType_AGENT)
      (seedDefaultRoles nanoid []))
   = [AccessRoleIds_AGENT_VIEWER, AccessRoleIds_AGENT_EDITOR, AccessRoleIds_AGENT_OWNER]"
  by (simp add: findRolesByResourceType_def seedDefaultRoles_def defaultRoles_def map_get_def
      map_values_def
      AccessRoleIds_AGENT_VIEWER_def AccessRoleIds_AGENT_EDITOR_def AccessRoleIds_AGENT_OWNER_def
      AccessRoleIds_PROMPTGROUP_VIEWER_def AccessRoleIds_PROMPTGROUP_EDITOR_def
      AccessRoleIds_PROMPTGROUP_OWNER_def AccessRoleIds_MCPSERVER_VIEWER_def
      AccessRoleIds_MCPSERVER_EDITOR_def AccessRoleIds_MCPSERVER_OWNER_def
      AccessRoleIds_REMOTE_AGENT_VIEWER_def AccessRoleIds_REMOTE_AGENT_EDITOR_def
      AccessRoleIds_REMOTE_AGENT_OWNER_def ResourceType_AGENT_def ResourceType_PROMPTGROUP_def
      ResourceType_MCPSERVER_def ResourceType_REMOTE_AGENT_def)

text \<open>
  C9. With the seeded default roles and an empty ACL store, a bulk update of agent \<open>a1\<close> for
  three principals, of which two name the seeded roles \<open>agent_viewer\<close> and \<open>agent_editor\<close>
  and one names a role that does not exist, returns a result and does not throw; but it
  grants nothing, reports three errors and leaves the store empty: the filter object that
  the function passes to \<open>AccessRole.find\<close> is compared with the resource type of each role,
  so that no role is found.
\<close>
theorem C9_bulk_update_grants_nothing:
  "PermissionService_bulkUpdateResourcePermissions ''agent'' ''a1'' bulk_request [] ''admin''
     (\<lambda>n. ''id'') (\<lambda>n. n) (seedDefaultRoles (\<lambda>n. ''role'') []) []
   = Inr (\<lparr>granted = [], updated = [], revoked = [],
            errors = [(bulk_request ! 0, ''Role agent_viewer not found''),
                      (bulk_request ! 1, ''Role agent_editor not found''),
                      (bulk_request ! 2, ''Role no_such_role not found'')]\<rparr>, [])"
  by (simp add: PermissionService_bulkUpdateResourcePermissions_def AccessRole_find_object
      bulk_request_def bulk_grant_step_def map_get_def Let_def)

end
